theory Spec2Isabelle
  imports Main
begin

section \<open>The PJRT C API client adapter (xla/pjrt/pjrt\_c\_api\_client.cc)\<close>

text \<open>
  The adapter drives a plugin through a table of C entry points. Plugin handles are opaque
  pointers; here they are natural numbers. The plugin is an oracle: a record with one
  function per entry point, giving what the entry point answers for its arguments. Every
  adapter function returns its result together with the list of entry points it invoked by
  name, in order, so that "no plugin call is made" is a statement about that list.
  The release of error objects and handles inside the scoped deleters is not part of the
  list.
\<close>

subsection \<open>Status and results\<close>

datatype StatusCode =
    kCancelled | kUnknown | kInvalidArgument | kDeadlineExceeded | kNotFound
  | kAlreadyExists | kPermissionDenied | kResourceExhausted | kFailedPrecondition
  | kAborted | kOutOfRange | kUnimplemented | kInternal | kUnavailable | kDataLoss
  | kUnauthenticated

text \<open>A non-OK status. The OK status is the absence of one.\<close>

datatype Status = Status (code: StatusCode) (message: string)

text \<open>
  How a call can end without its value: a returned non-OK status, process termination
  (\<^verbatim>\<open>CHECK\<close>, \<^verbatim>\<open>LOG(FATAL)\<close>, \<^verbatim>\<open>LogFatalIfPjrtError\<close>), or undefined behaviour of C++.
\<close>

datatype failure = Error Status | Fatal | Undefined

definition InvalidArgument :: "string \<Rightarrow> failure" where
  "InvalidArgument msg = Error (Status kInvalidArgument msg)"

definition Unimplemented :: "string \<Rightarrow> failure" where
  "Unimplemented msg = Error (Status kUnimplemented msg)"


subsection \<open>Integer widths\<close>

text \<open>
  Counts are \<^verbatim>\<open>size_t\<close> in the source and natural numbers here. Where the source puts a
  count into an \<^verbatim>\<open>int\<close> the conversion is written out: \<open>size_t_to_int n\<close> is the value
  of a 32-bit \<^verbatim>\<open>int\<close> initialized from the count \<open>n\<close>; it is \<open>n\<close> up to \<open>INT_MAX\<close>
  and wraps around above.
\<close>

definition INT_MAX :: int where
  "INT_MAX = 2147483647"

definition size_t_to_int :: "nat \<Rightarrow> int" where
  "size_t_to_int n =
     (let m = int n mod 4294967296 in if m < 2147483648 then m else m - 4294967296)"

text \<open>
  A loop \<^verbatim>\<open>for (int i = 0; i < n; ++i)\<close> over the \<open>n\<close> elements of an array, \<open>n\<close> a
  \<^verbatim>\<open>size_t\<close>, and \<open>body\<close> what the loop does on a list of elements. With more than
  \<open>INT_MAX\<close> elements the increment of \<open>i\<close> overflows after the element of index
  \<open>INT_MAX\<close>, which is undefined behaviour, unless the body has failed before.
\<close>

definition int_loop :: "('a list \<Rightarrow> failure + 'b) \<Rightarrow> 'a list \<Rightarrow> failure + 'b" where
  "int_loop body xs =
     (if int (length xs) \<le> INT_MAX then body xs
      else (case body (take (nat INT_MAX + 1) xs) of
              Inl f \<Rightarrow> Inl f
            | Inr _ \<Rightarrow> Inl Undefined))"

subsection \<open>Plugin handles and argument records\<close>

type_synonym PJRT_Client = nat
type_synonym PJRT_Device = nat
type_synonym PJRT_Memory = nat
type_synonym PJRT_Buffer = nat
type_synonym PJRT_Event = nat
type_synonym PJRT_Executable = nat
type_synonym PJRT_LoadedExecutable = nat
type_synonym PJRT_DeviceDescription = nat
type_synonym PJRT_TopologyDescription = nat

type_synonym PrimitiveType = nat
type_synonym byte = nat

text \<open>
  Modelled from the spec: the declaration of \<^verbatim>\<open>HostBufferSemantics\<close> is not among the
  sources. The three values are the ones the code names; \<open>kOtherSemantics n\<close> stands for
  any other value of the enumeration.
\<close>

datatype HostBufferSemantics =
    kImmutableOnlyDuringCall
  | kImmutableUntilTransferCompletes
  | kZeroCopy
  | kOtherSemantics nat

type_synonym Layout = "nat list"
type_synonym BufferMemoryLayoutData = "nat list"

record Shape =
  element_type :: PrimitiveType
  dimensions :: "int list"
  layout :: "Layout option"

record Literal =
  shape :: Shape
  untyped_data :: "byte list"

text \<open>
  A \<^verbatim>\<open>std::function<void()>\<close> handed to the adapter: a caller's closure, or the closure of
  the cross-client copy whose only capture is the shared pointer keeping the literal alive.
\<close>

datatype host_callback = UserCallback nat | FreesLiteral Literal

record PJRT_Client_BufferFromHostBuffer_Args =
  bfhb_client :: PJRT_Client
  bfhb_data :: "byte list"
  bfhb_type :: PrimitiveType
  bfhb_dims :: "int list"
  bfhb_byte_strides :: "int list option"
  bfhb_device_layout :: "BufferMemoryLayoutData option"
  bfhb_host_buffer_semantics :: HostBufferSemantics
  bfhb_device :: "PJRT_Device option"
  bfhb_memory :: "PJRT_Memory option"

record PJRT_Client_CreateViewOfDeviceBuffer_Args =
  cv_client :: PJRT_Client
  cv_device_buffer_ptr :: nat
  cv_dims :: "int list"
  cv_element_type :: PrimitiveType
  cv_layout :: "BufferMemoryLayoutData option"
  cv_on_delete_callback :: "host_callback option"
  cv_device :: PJRT_Device
  cv_stream :: int

text \<open>
  A marshalled host callback: the channel and the slot of the callback-function vector that
  \<^verbatim>\<open>user_arg\<close> points to.
\<close>

record PJRT_CallbackInfo =
  channel_id :: int
  user_arg :: nat

record PJRT_ExecuteOptions =
  c_launch_id :: int
  c_send_callbacks :: "PJRT_CallbackInfo list list"
  num_send_ops :: nat
  c_recv_callbacks :: "PJRT_CallbackInfo list list"
  num_recv_ops :: nat

text \<open>
  \<open>output_lists\<close> is the caller-provided storage the plugin writes into;
  \<open>device_complete_events\<close> is \<open>None\<close> for the null pointer.
\<close>

record PJRT_LoadedExecutable_Execute_Args =
  ex_executable :: PJRT_LoadedExecutable
  ex_options :: PJRT_ExecuteOptions
  ex_argument_lists :: "PJRT_Buffer list list"
  ex_num_devices :: nat
  ex_num_args :: nat
  ex_output_lists :: "PJRT_Buffer list list"
  ex_device_complete_events :: "PJRT_Event list option"
  ex_execute_device :: "PJRT_Device option"

text \<open>The closure behind the \<^verbatim>\<open>user_arg\<close> of a registration on an event.\<close>

datatype on_ready_closure = CallsOnDone host_callback | SetsPromise nat

text \<open>
  Modelled from the spec: the declarations of \<^verbatim>\<open>PJRT_NamedValue\<close> and of its type tag are
  not among the sources. A named value is a name and a value of one of the types of the
  ABI. The three types are the ones the code names; \<open>other_value n\<close> stands for a value of
  any other type.
\<close>

datatype PJRT_NamedValue_value =
    string_value string
  | int64_value int
  | int64_array_value "int list"
  | other_value nat

record PJRT_NamedValue =
  nv_name :: string
  nv_value :: PJRT_NamedValue_value

text \<open>
  Modelled from the spec: \<^verbatim>\<open>PJRT_KeyValueCallbackData\<close> is not among the sources. It holds
  the two C callbacks and the two wrapped callbacks that the user arguments point to.
\<close>

record PJRT_KeyValueCallbackData =
  c_kv_get :: nat
  kv_get_c_func :: nat
  c_kv_put :: nat
  kv_put_c_func :: nat

text \<open>
  \<^verbatim>\<open>GetCApiClient\<close> declares its argument structure without an initializer: a member it
  does not assign holds an indeterminate value when the plugin receives the structure.
\<close>

datatype 'a member = indeterminate | assigned 'a

record PJRT_Client_Create_Args =
  create_options :: "(string \<times> string) list"
  num_options :: nat
  kv_get_callback :: "nat member"
  kv_get_user_arg :: "nat member"
  kv_put_callback :: "nat member"
  kv_put_user_arg :: "nat member"

subsection \<open>The plugin's function table\<close>

text \<open>
  An entry point answers with an error or with its outputs. Execution writes the cell
  \<open>(i, j)\<close> of the output storage and the completion event of device \<open>i\<close>.
\<close>

record PJRT_Api =
  minor_version :: nat
  PJRT_Client_Create :: "PJRT_Client_Create_Args \<Rightarrow> Status + PJRT_Client"
  PJRT_TopologyDescription_Attributes ::
    "PJRT_TopologyDescription \<Rightarrow> Status + PJRT_NamedValue list"
  PJRT_DeviceDescription_Attributes ::
    "PJRT_DeviceDescription \<Rightarrow> Status + PJRT_NamedValue list"
  PJRT_Client_Devices :: "PJRT_Client \<Rightarrow> Status + PJRT_Device list"
  PJRT_Client_AddressableDevices :: "PJRT_Client \<Rightarrow> Status + PJRT_Device list"
  PJRT_Client_AddressableMemories :: "PJRT_Client \<Rightarrow> Status + PJRT_Memory list"
  PJRT_Device_AddressableMemories :: "PJRT_Device \<Rightarrow> Status + PJRT_Memory list"
  PJRT_Memory_AddressableByDevices :: "PJRT_Memory \<Rightarrow> Status + PJRT_Device list"
  PJRT_Buffer_UnsafePointer :: "PJRT_Buffer \<Rightarrow> Status + nat"
  PJRT_Client_BufferFromHostBuffer ::
    "PJRT_Client_BufferFromHostBuffer_Args \<Rightarrow> Status + PJRT_Buffer \<times> PJRT_Event"
  PJRT_Event_OnReady :: "PJRT_Event \<Rightarrow> Status option"
  PJRT_Client_CreateViewOfDeviceBuffer ::
    "PJRT_Client_CreateViewOfDeviceBuffer_Args \<Rightarrow> Status + PJRT_Buffer"
  PJRT_Executable_NumOutputs :: "PJRT_Executable \<Rightarrow> Status + nat"
  PJRT_LoadedExecutable_Execute ::
    "PJRT_LoadedExecutable_Execute_Args \<Rightarrow>
       Status + (nat \<Rightarrow> nat \<Rightarrow> PJRT_Buffer) \<times> (nat \<Rightarrow> PJRT_Event)"
  PJRT_Buffer_CopyToDevice :: "PJRT_Buffer \<Rightarrow> PJRT_Device \<Rightarrow> Status + PJRT_Buffer"
  PJRT_Buffer_CopyToMemory :: "PJRT_Buffer \<Rightarrow> PJRT_Memory \<Rightarrow> Status + PJRT_Buffer"
  PJRT_Buffer_ReadyEvent :: "PJRT_Buffer \<Rightarrow> Status + PJRT_Event"

text \<open>
  \<open>Call_ToLiteralSync\<close> records the synchronous host materialization of a buffer, which
  reaches the plugin's device-to-host transfer. \<open>Call_GetTopologyDescription\<close>,
  \<open>Call_GetPlatformVersion\<close>, \<open>Call_GetPlatformName\<close> and \<open>Call_GetDeviceDescription\<close>
  record the helpers of these names, which query the plugin and whose bodies are not among
  the sources.
\<close>

datatype plugin_call =
    Call_Client_Create PJRT_Client_Create_Args
  | Call_Client_Devices PJRT_Client
  | Call_Client_AddressableDevices PJRT_Client
  | Call_Client_AddressableMemories PJRT_Client
  | Call_Device_AddressableMemories PJRT_Device
  | Call_Memory_AddressableByDevices PJRT_Memory
  | Call_Buffer_UnsafePointer PJRT_Buffer
  | Call_Client_BufferFromHostBuffer PJRT_Client_BufferFromHostBuffer_Args
  | Call_Event_OnReady PJRT_Event on_ready_closure
  | Call_Client_CreateViewOfDeviceBuffer PJRT_Client_CreateViewOfDeviceBuffer_Args
  | Call_Executable_NumOutputs PJRT_Executable
  | Call_LoadedExecutable_Execute PJRT_LoadedExecutable_Execute_Args
  | Call_Buffer_CopyToDevice PJRT_Buffer PJRT_Device
  | Call_Buffer_CopyToMemory PJRT_Buffer PJRT_Memory
  | Call_Buffer_ReadyEvent PJRT_Buffer
  | Call_ToLiteralSync PJRT_Buffer
  | Call_GetTopologyDescription PJRT_Client
  | Call_TopologyDescription_Attributes PJRT_TopologyDescription
  | Call_GetPlatformVersion PJRT_Client
  | Call_GetPlatformName PJRT_Client
  | Call_GetDeviceDescription PJRT_Device
  | Call_DeviceDescription_Attributes PJRT_DeviceDescription

subsection \<open>Client, device, memory space and buffer objects\<close>

text \<open>
  \<open>client_addr\<close> is the address of the client object: the source compares clients as
  pointers, so two clients are the same object exactly when their addresses are equal.
\<close>

type_synonym PjRtValueType = PJRT_NamedValue_value

record PjRtCApiTopologyDescription =
  c_topology :: PJRT_TopologyDescription
  topology_attributes :: "(string \<times> PjRtValueType) list"

record PjRtCApiClient =
  client_addr :: nat
  c_api :: PJRT_Api
  c_client :: PJRT_Client
  kv_callback_data :: "PJRT_KeyValueCallbackData option"
  topo_desc :: "Status + PjRtCApiTopologyDescription"
  platform_version :: string
  platform_name :: string

text \<open>
  A pointer to a device or memory-space object is its position in the client's vector of
  owned objects (\<open>owned_devices\<close>, \<open>owned_memory_spaces\<close> below).
\<close>

datatype PjRtDeviceAttribute =
    AttrString string
  | AttrInt64 int
  | AttrInt64List "int list"

record PjRtCApiDeviceDescription =
  device_description :: PJRT_DeviceDescription
  attributes :: "string \<Rightarrow> PjRtDeviceAttribute option"

record PjRtCApiDevice =
  device_client :: PjRtCApiClient
  c_device :: PJRT_Device
  description :: PjRtCApiDeviceDescription
  device_memory_spaces :: "nat list"

record PjRtCApiMemorySpace =
  memory_client :: PjRtCApiClient
  c_memory :: PJRT_Memory
  memory_devices :: "nat list"

text \<open>
  \<open>readiness_promise\<close> is the shared pointer to the promise: the address of the promise
  on the heap of promises, \<open>None\<close> for the null pointer.
\<close>

record PjRtCApiBuffer =
  buffer_client :: PjRtCApiClient
  c_buffer :: PJRT_Buffer
  readiness_event :: "PJRT_Event option"
  readiness_promise :: "nat option"

definition new_PjRtCApiBuffer :: "PjRtCApiClient \<Rightarrow> PJRT_Buffer \<Rightarrow> PjRtCApiBuffer" where
  "new_PjRtCApiBuffer cl buf =
     \<lparr>buffer_client = cl, c_buffer = buf, readiness_event = None, readiness_promise = None\<rparr>"

record PjRtCApiLoadedExecutable =
  executable_client :: PjRtCApiClient
  c_loaded_executable :: PJRT_LoadedExecutable
  c_executable :: PJRT_Executable

text \<open>
  Helpers whose bodies are not among the sources are parameters: the layout conversion,
  the lookup of the plugin's function table for a device type (\<open>None\<close> is the null
  table), the conversion of the creation options, the wrapping of the key-value callbacks,
  the queries of the topology description, of the platform version, of the platform name
  and of the description of a device, the conversion of a list of named values, the byte
  strides of a shape, and the error, if any, of the synchronous host materialization of
  the buffer base class. A helper that returns a status in the source returns one here;
  a query of the plugin that returns a plain value in the source may also end the process.
  The conversions between the C++ and the C enumerations of the element types and of the
  host-buffer semantics, whose bodies are not among the sources either, are taken to
  rename the values one to one: the model hands the plugin the C++ value.
\<close>

record pjrt_helpers =
  ConvertToBufferMemoryLayoutData :: "Layout \<Rightarrow> Status + BufferMemoryLayoutData"
  PjrtApi :: "string \<Rightarrow> Status + PJRT_Api option"
  ConvertToPjRtNamedValueList ::
    "(string \<times> string) list \<Rightarrow> nat \<Rightarrow> Status + (string \<times> string) list"
  ConvertToCKeyValueCallbacks :: "nat \<Rightarrow> nat \<Rightarrow> PJRT_KeyValueCallbackData"
  GetTopologyDescription :: "PJRT_Client \<Rightarrow> PJRT_Api \<Rightarrow> Status + PJRT_TopologyDescription"
  ConvertFromPjRtNamedValueList ::
    "PJRT_NamedValue list \<Rightarrow> failure + (string \<times> PjRtValueType) list"
  GetPlatformVersion :: "PJRT_Client \<Rightarrow> PJRT_Api \<Rightarrow> failure + string"
  GetPlatformName :: "PJRT_Client \<Rightarrow> PJRT_Api \<Rightarrow> failure + string"
  GetDeviceDescription :: "PJRT_Api \<Rightarrow> PJRT_Device \<Rightarrow> failure + PJRT_DeviceDescription"
  ByteStrides :: "Shape \<Rightarrow> Status + int list"
  ToLiteralSync_error :: "PjRtCApiBuffer \<Rightarrow> Status option"

subsection \<open>\<^verbatim>\<open>PjRtCApiClient::UnsafeBufferPointer\<close>\<close>

definition UnsafeBufferPointer_message :: "string \<Rightarrow> string \<Rightarrow> string" where
  "UnsafeBufferPointer_message buffer_platform this_platform =
     ''buffer passed to PjRtCApiClient::UnsafeBufferPointer() is from a '' @
     ''different client than that of the function call. Buffer'' @ [CHR 0x27] @
     ''s client platform: '' @ [CHR 0x27] @ buffer_platform @ [CHR 0x27] @
     '', function call'' @ [CHR 0x27] @ ''s client platform: '' @ [CHR 0x27] @
     this_platform @ [CHR 0x27] @ ''.''"

definition UnsafeBufferPointer ::
  "PjRtCApiClient \<Rightarrow> PjRtCApiBuffer \<Rightarrow> (failure + nat) \<times> plugin_call list" where
  "UnsafeBufferPointer this buffer =
     (if client_addr (buffer_client buffer) \<noteq> client_addr this then
        (Inl (InvalidArgument
                (UnsafeBufferPointer_message (platform_name (buffer_client buffer))
                   (platform_name this))), [])
      else
        (case PJRT_Buffer_UnsafePointer (c_api this) (c_buffer buffer) of
           Inl e \<Rightarrow> (Inl (Error e), [Call_Buffer_UnsafePointer (c_buffer buffer)])
         | Inr buffer_pointer \<Rightarrow>
             (Inr buffer_pointer, [Call_Buffer_UnsafePointer (c_buffer buffer)])))"

subsection \<open>\<^verbatim>\<open>PjRtCApiClient::BufferFromHostBuffer\<close>\<close>

definition BufferFromHostBufferInternalImpl ::
  "pjrt_helpers \<Rightarrow> PjRtCApiClient \<Rightarrow> byte list \<Rightarrow> PrimitiveType \<Rightarrow> int list \<Rightarrow>
   int list option \<Rightarrow> HostBufferSemantics \<Rightarrow> host_callback option \<Rightarrow>
   PjRtCApiDevice + PjRtCApiMemorySpace \<Rightarrow> Layout option \<Rightarrow>
   (failure + PjRtCApiBuffer) \<times> plugin_call list" where
  "BufferFromHostBufferInternalImpl h this data type dims byte_strides
       host_buffer_semantics on_done_with_host_buffer device_or_memory device_layout =
     (if host_buffer_semantics \<noteq> kImmutableOnlyDuringCall \<and>
         host_buffer_semantics \<noteq> kZeroCopy \<and>
         host_buffer_semantics \<noteq> kImmutableUntilTransferCompletes then
        (Inl (Unimplemented
           (''PJRT C API does not support HostBufferSemantics other than '' @
            ''HostBufferSemantics::kImmutableOnlyDuringCall, '' @
            ''HostBufferSemantics::kZeroCopy and '' @
            ''HostBufferSemantics::kImmutableUntilTransferCompletes.'')), [])
      else
        (case (case device_layout of
                 None \<Rightarrow> Inr None
               | Some l \<Rightarrow> map_sum id Some (ConvertToBufferMemoryLayoutData h l)) of
           Inl e \<Rightarrow> (Inl (Error e), [])
         | Inr c_layout \<Rightarrow>
            (let args = \<lparr>bfhb_client = c_client this, bfhb_data = data, bfhb_type = type,
                         bfhb_dims = dims, bfhb_byte_strides = byte_strides,
                         bfhb_device_layout = c_layout,
                         bfhb_host_buffer_semantics = host_buffer_semantics,
                         bfhb_device = (case device_or_memory of
                                          Inl d \<Rightarrow> Some (c_device d) | Inr m \<Rightarrow> None),
                         bfhb_memory = (case device_or_memory of
                                          Inl d \<Rightarrow> None | Inr m \<Rightarrow> Some (c_memory m))\<rparr>
             in case PJRT_Client_BufferFromHostBuffer (c_api this) args of
                  Inl e \<Rightarrow> (Inl (Error e), [Call_Client_BufferFromHostBuffer args])
                | Inr (buf, done_with_host_buffer) \<Rightarrow>
                   (let buffer = new_PjRtCApiBuffer this buf
                    in case on_done_with_host_buffer of
                         None \<Rightarrow> (Inr buffer, [Call_Client_BufferFromHostBuffer args])
                       | Some cb \<Rightarrow>
                          (case PJRT_Event_OnReady (c_api this) done_with_host_buffer of
                             Some e \<Rightarrow>
                               (Inl (Error e),
                                [Call_Client_BufferFromHostBuffer args,
                                 Call_Event_OnReady done_with_host_buffer (CallsOnDone cb)])
                           | None \<Rightarrow>
                               (Inr buffer,
                                [Call_Client_BufferFromHostBuffer args,
                                 Call_Event_OnReady done_with_host_buffer (CallsOnDone cb)]))))))"

text \<open>The three public overloads: to a memory space, to a device with a layout, to a device.\<close>

definition BufferFromHostBuffer_memory ::
  "pjrt_helpers \<Rightarrow> PjRtCApiClient \<Rightarrow> byte list \<Rightarrow> PrimitiveType \<Rightarrow> int list \<Rightarrow>
   int list option \<Rightarrow> HostBufferSemantics \<Rightarrow> host_callback option \<Rightarrow>
   PjRtCApiMemorySpace \<Rightarrow> Layout option \<Rightarrow> (failure + PjRtCApiBuffer) \<times> plugin_call list" where
  "BufferFromHostBuffer_memory h this data type dims byte_strides host_buffer_semantics
       on_done_with_host_buffer memory_space device_layout =
     BufferFromHostBufferInternalImpl h this data type dims byte_strides
       host_buffer_semantics on_done_with_host_buffer (Inr memory_space) device_layout"

definition BufferFromHostBuffer_device_layout ::
  "pjrt_helpers \<Rightarrow> PjRtCApiClient \<Rightarrow> byte list \<Rightarrow> PrimitiveType \<Rightarrow> int list \<Rightarrow>
   int list option \<Rightarrow> HostBufferSemantics \<Rightarrow> host_callback option \<Rightarrow>
   PjRtCApiDevice \<Rightarrow> Layout option \<Rightarrow> (failure + PjRtCApiBuffer) \<times> plugin_call list" where
  "BufferFromHostBuffer_device_layout h this data type dims byte_strides
       host_buffer_semantics on_done_with_host_buffer device device_layout =
     BufferFromHostBufferInternalImpl h this data type dims byte_strides
       host_buffer_semantics on_done_with_host_buffer (Inl device) device_layout"

definition BufferFromHostBuffer_device ::
  "pjrt_helpers \<Rightarrow> PjRtCApiClient \<Rightarrow> byte list \<Rightarrow> PrimitiveType \<Rightarrow> int list \<Rightarrow>
   int list option \<Rightarrow> HostBufferSemantics \<Rightarrow> host_callback option \<Rightarrow>
   PjRtCApiDevice \<Rightarrow> (failure + PjRtCApiBuffer) \<times> plugin_call list" where
  "BufferFromHostBuffer_device h this data type dims byte_strides host_buffer_semantics
       on_done_with_host_buffer device =
     BufferFromHostBufferInternalImpl h this data type dims byte_strides
       host_buffer_semantics on_done_with_host_buffer (Inl device) None"

subsection \<open>\<^verbatim>\<open>PjRtCApiClient::CreateViewOfDeviceBuffer\<close>\<close>

definition CreateViewOfDeviceBuffer ::
  "pjrt_helpers \<Rightarrow> PjRtCApiClient \<Rightarrow> nat \<Rightarrow> Shape \<Rightarrow> PjRtCApiDevice \<Rightarrow>
   host_callback option \<Rightarrow> int option \<Rightarrow> (failure + PjRtCApiBuffer) \<times> plugin_call list" where
  "CreateViewOfDeviceBuffer h this device_ptr shp device on_delete_callback stream =
     (case (case layout shp of
              None \<Rightarrow> Inr None
            | Some l \<Rightarrow> map_sum id Some (ConvertToBufferMemoryLayoutData h l)) of
        Inl e \<Rightarrow> (Inl (Error e), [])
      | Inr c_layout \<Rightarrow>
         (let args = \<lparr>cv_client = c_client this, cv_device_buffer_ptr = device_ptr,
                      cv_dims = dimensions shp, cv_element_type = element_type shp,
                      cv_layout = c_layout, cv_on_delete_callback = on_delete_callback,
                      cv_device = c_device device,
                      cv_stream = (case stream of Some s \<Rightarrow> s | None \<Rightarrow> 0)\<rparr>
          in if minor_version (c_api this) < 33 then
               (Inl (Unimplemented ''The plugin does not support CreateViewOfDeviceBuffer''), [])
             else
               (case PJRT_Client_CreateViewOfDeviceBuffer (c_api this) args of
                  Inl e \<Rightarrow> (Inl (Error e), [Call_Client_CreateViewOfDeviceBuffer args])
                | Inr buf \<Rightarrow>
                    (Inr (new_PjRtCApiBuffer this buf),
                     [Call_Client_CreateViewOfDeviceBuffer args]))))"

subsection \<open>Execution: marshalling of buffers and host callbacks\<close>

type_synonym SendCallback = "int \<times> nat"
type_synonym RecvCallback = "int \<times> nat"

record ExecuteOptions =
  launch_id :: int
  send_callbacks :: "SendCallback list list"
  recv_callbacks :: "RecvCallback list list"
  use_major_to_minor_data_layout_for_callbacks :: bool

definition Convert2DCppBuffersToCBuffers :: "PjRtCApiBuffer list list \<Rightarrow> PJRT_Buffer list list" where
  "Convert2DCppBuffersToCBuffers cpp_lists = map (map c_buffer) cpp_lists"

text \<open>
  \<open>inner_size\<close> is an \<^verbatim>\<open>int\<close>; its callers pass it the \<^verbatim>\<open>size_t\<close> size of the
  first list of the output storage. For every \<open>i < outer_size\<close> the function reserves
  \<open>inner_size\<close> elements: a negative \<open>inner_size\<close>, converted to the unsigned size that
  \<^verbatim>\<open>reserve\<close> takes, exceeds the maximal size of a vector, \<^verbatim>\<open>reserve\<close> throws
  \<^verbatim>\<open>std::length_error\<close> and the function does not return; no caller in the source catches
  the exception, and the model records the end of the process. Otherwise the function reads
  the cells \<open>(i, j)\<close> with \<open>i < outer_size\<close> and \<open>j < inner_size\<close> of the storage; a read
  outside the storage is undefined behaviour.
\<close>

definition Convert2DCBuffersToCppBuffers ::
  "PJRT_Buffer list list \<Rightarrow> nat \<Rightarrow> int \<Rightarrow> PjRtCApiClient \<Rightarrow> failure + PjRtCApiBuffer list list" where
  "Convert2DCBuffersToCppBuffers c_lists outer_size inner_size cl =
     (if outer_size = 0 then Inr []
      else if inner_size < 0 then Inl Fatal
      else if inner_size = 0 \<or> (outer_size \<le> length c_lists \<and>
          list_all (\<lambda>i. nat inner_size \<le> length (c_lists ! i)) [0..<outer_size]) then
        Inr (map (\<lambda>i. map (\<lambda>j. new_PjRtCApiBuffer cl (c_lists ! i ! j)) [0..<nat inner_size])
               [0..<outer_size])
      else Inl Undefined)"

text \<open>
  The inner loop of \<^verbatim>\<open>CppSendCallbackListsToC\<close> and \<^verbatim>\<open>CppRecvCallbackListsToC\<close>: each
  callback takes the next slot \<open>func_count\<close> of the function vector; a slot beyond the
  vector's size is undefined behaviour, and so is the increment of the \<^verbatim>\<open>int\<close>
  \<open>func_count\<close> at \<open>INT_MAX\<close>. The vector is resized to a product of two \<^verbatim>\<open>size_t\<close>,
  which wraps around at \<open>2 ^ 64\<close>.
\<close>

fun CppCallbackListToC ::
  "(int \<times> nat) list \<Rightarrow> nat \<Rightarrow> nat option list \<Rightarrow>
   failure + PJRT_CallbackInfo list \<times> nat \<times> nat option list" where
  "CppCallbackListToC [] func_count functions = Inr ([], func_count, functions)"
| "CppCallbackListToC (cpp_callback # rest) func_count functions =
     (if func_count < length functions \<and> int func_count < INT_MAX then
        (case CppCallbackListToC rest (Suc func_count)
                (functions[func_count := Some (snd cpp_callback)]) of
           Inl f \<Rightarrow> Inl f
         | Inr (c_list, n, functions') \<Rightarrow>
             Inr (\<lparr>channel_id = fst cpp_callback, user_arg = func_count\<rparr> # c_list, n, functions'))
      else Inl Undefined)"

fun CppCallbackListsLoop ::
  "(int \<times> nat) list list \<Rightarrow> nat \<Rightarrow> nat option list \<Rightarrow>
   failure + PJRT_CallbackInfo list list \<times> nat option list" where
  "CppCallbackListsLoop [] func_count functions = Inr ([], functions)"
| "CppCallbackListsLoop (cpp_list # rest) func_count functions =
     (case CppCallbackListToC cpp_list func_count functions of
        Inl f \<Rightarrow> Inl f
      | Inr (c_list, n, functions') \<Rightarrow>
          (case CppCallbackListsLoop rest n functions' of
             Inl f \<Rightarrow> Inl f
           | Inr (c_lists, functions'') \<Rightarrow> Inr (c_list # c_lists, functions'')))"

definition CppSendCallbackListsToC ::
  "SendCallback list list \<Rightarrow> failure + PJRT_CallbackInfo list list \<times> nat option list" where
  "CppSendCallbackListsToC cpp_lists =
     (case cpp_lists of
        [] \<Rightarrow> Inr ([], [])
      | first # _ \<Rightarrow>
          CppCallbackListsLoop cpp_lists 0
            (replicate (nat (int (length cpp_lists * length first) mod 18446744073709551616))
               None))"

definition CppRecvCallbackListsToC ::
  "RecvCallback list list \<Rightarrow> failure + PJRT_CallbackInfo list list \<times> nat option list" where
  "CppRecvCallbackListsToC cpp_lists =
     (case cpp_lists of
        [] \<Rightarrow> Inr ([], [])
      | first # _ \<Rightarrow>
          CppCallbackListsLoop cpp_lists 0
            (replicate (nat (int (length cpp_lists * length first) mod 18446744073709551616))
               None))"

record SendRecvCallbackData =
  cd_c_send_callbacks :: "PJRT_CallbackInfo list list"
  cd_send_callback_functions :: "nat option list"
  cd_c_recv_callbacks :: "PJRT_CallbackInfo list list"
  cd_recv_callback_functions :: "nat option list"

text \<open>
  What \<^verbatim>\<open>GetCommonExecuteArgs\<close> leaves in the variables of its caller: the arguments of the
  plugin call, the output storage, the completion-event vector and the callback data.
\<close>

record CommonExecuteArgs =
  cea_args :: PJRT_LoadedExecutable_Execute_Args
  cea_c_output_lists_storage :: "PJRT_Buffer list list"
  cea_device_complete_events :: "PJRT_Event list option"
  cea_callback_data :: SendRecvCallbackData

definition nullptr :: nat where
  "nullptr = 0"

subsection \<open>\<^verbatim>\<open>PjRtCApiLoadedExecutable::GetCommonExecuteArgs\<close>\<close>

text \<open>
  The output storage is resized in a loop \<^verbatim>\<open>for (int i = 0; i < outer_size; ++i)\<close> that
  cannot fail: with more than \<open>INT_MAX\<close> devices the increment of \<open>i\<close> overflows.
\<close>

definition GetCommonExecuteArgs ::
  "PjRtCApiLoadedExecutable \<Rightarrow> PjRtCApiBuffer list list \<Rightarrow> ExecuteOptions \<Rightarrow>
   PJRT_Event list option \<Rightarrow> (failure + CommonExecuteArgs) \<times> plugin_call list" where
  "GetCommonExecuteArgs this argument_handles options device_complete_events =
     (let using_host_callbacks =
            (send_callbacks options \<noteq> [] \<or> recv_callbacks options \<noteq> [])
      in if using_host_callbacks \<and> \<not> use_major_to_minor_data_layout_for_callbacks options then
           (Inl (Unimplemented
              (''PJRT C API doesn'' @ [CHR 0x27] @ ''t support '' @
               ''ExecuteOptions::use_major_to_minor_data_layout_for_callbacks = false'')), [])
         else
           (let num_devices = length argument_handles
            in if \<not> num_devices > 0 then (Inl Fatal, [])
               else if device_complete_events = None \<and> using_host_callbacks then
                 (Inl Undefined, [])
               else
                 (let num_args = length (hd argument_handles);
                      events = (case device_complete_events of
                                  None \<Rightarrow> None
                                | Some _ \<Rightarrow> Some (replicate num_devices nullptr));
                      c_argument_lists_storage = Convert2DCppBuffersToCBuffers argument_handles
                  in case PJRT_Executable_NumOutputs (c_api (executable_client this))
                            (c_executable this) of
                       Inl e \<Rightarrow> (Inl (Error e), [Call_Executable_NumOutputs (c_executable this)])
                     | Inr num_outputs \<Rightarrow>
                        (let outer_size = num_devices;
                             inner_size = num_outputs;
                             c_output_lists_storage =
                               replicate outer_size (replicate inner_size nullptr)
                         in if INT_MAX < int outer_size then
                              (Inl Undefined, [Call_Executable_NumOutputs (c_executable this)])
                            else
                            case (if send_callbacks options \<noteq> []
                                  then CppSendCallbackListsToC (send_callbacks options)
                                  else Inr ([], [])) of
                              Inl f \<Rightarrow> (Inl f, [Call_Executable_NumOutputs (c_executable this)])
                            | Inr (c_send, send_functions) \<Rightarrow>
                               (case (if recv_callbacks options \<noteq> []
                                      then CppRecvCallbackListsToC (recv_callbacks options)
                                      else Inr ([], [])) of
                                  Inl f \<Rightarrow>
                                    (Inl f, [Call_Executable_NumOutputs (c_executable this)])
                                | Inr (c_recv, recv_functions) \<Rightarrow>
                                   (Inr \<lparr>cea_args =
                                          \<lparr>ex_executable = c_loaded_executable this,
                                           ex_options =
                                             \<lparr>c_launch_id = launch_id options,
                                              c_send_callbacks = c_send,
                                              num_send_ops =
                                                (if send_callbacks options \<noteq> []
                                                 then length (hd (send_callbacks options))
                                                 else 0),
                                              c_recv_callbacks = c_recv,
                                              num_recv_ops =
                                                (if recv_callbacks options \<noteq> []
                                                 then length (hd (recv_callbacks options))
                                                 else 0)\<rparr>,
                                           ex_argument_lists = c_argument_lists_storage,
                                           ex_num_devices = num_devices,
                                           ex_num_args = num_args,
                                           ex_output_lists = c_output_lists_storage,
                                           ex_device_complete_events = events,
                                           ex_execute_device = None\<rparr>,
                                         cea_c_output_lists_storage = c_output_lists_storage,
                                         cea_device_complete_events = events,
                                         cea_callback_data =
                                           \<lparr>cd_c_send_callbacks = c_send,
                                            cd_send_callback_functions = send_functions,
                                            cd_c_recv_callbacks = c_recv,
                                            cd_recv_callback_functions = recv_functions\<rparr>\<rparr>,
                                    [Call_Executable_NumOutputs (c_executable this)]))))))"

text \<open>
  The plugin writes the cells of the storage it was handed and the completion events of
  the devices, when it was handed an event vector.
\<close>

definition plugin_writes_outputs ::
  "(nat \<Rightarrow> nat \<Rightarrow> PJRT_Buffer) \<Rightarrow> PJRT_Buffer list list \<Rightarrow> PJRT_Buffer list list" where
  "plugin_writes_outputs outs storage =
     map (\<lambda>i. map (\<lambda>j. outs i j) [0..<length (storage ! i)]) [0..<length storage]"

definition plugin_writes_events ::
  "(nat \<Rightarrow> PJRT_Event) \<Rightarrow> PJRT_Event list option \<Rightarrow> PJRT_Event list option" where
  "plugin_writes_events evs events =
     (case events of None \<Rightarrow> None | Some es \<Rightarrow> Some (map evs [0..<length es]))"

subsection \<open>\<^verbatim>\<open>PjRtCApiLoadedExecutable::Execute\<close>\<close>

text \<open>
  \<open>returned_futures\<close> is the caller's optional vector of futures, a future being the
  completion event it was converted from; the second component of the result is that
  variable after the call.
\<close>

definition Execute ::
  "PjRtCApiLoadedExecutable \<Rightarrow> PjRtCApiBuffer list list \<Rightarrow> ExecuteOptions \<Rightarrow>
   PJRT_Event list option \<Rightarrow>
   (failure + PjRtCApiBuffer list list \<times> PJRT_Event list option) \<times> plugin_call list" where
  "Execute this argument_handles options returned_futures =
     (let device_complete_events = (case returned_futures of None \<Rightarrow> None | Some _ \<Rightarrow> Some [])
      in case GetCommonExecuteArgs this argument_handles options device_complete_events of
           (Inl f, calls) \<Rightarrow> (Inl f, calls)
         | (Inr common, calls) \<Rightarrow>
            (let args = (cea_args common)\<lparr>ex_execute_device := None\<rparr>
             in case PJRT_LoadedExecutable_Execute (c_api (executable_client this)) args of
                  Inl e \<Rightarrow> (Inl (Error e), calls @ [Call_LoadedExecutable_Execute args])
                | Inr (outs, evs) \<Rightarrow>
                   (let output_lists = plugin_writes_outputs outs (ex_output_lists args);
                        events = plugin_writes_events evs (ex_device_complete_events args);
                        returned_futures' =
                          (case cea_device_complete_events common of
                             None \<Rightarrow> returned_futures
                           | Some _ \<Rightarrow>
                              (case returned_futures of
                                 None \<Rightarrow> None
                               | Some _ \<Rightarrow> events))
                    in case Convert2DCBuffersToCppBuffers output_lists (ex_num_devices args)
                              (size_t_to_int (length (hd (cea_c_output_lists_storage common))))
                              (executable_client this) of
                         Inl f \<Rightarrow> (Inl f, calls @ [Call_LoadedExecutable_Execute args])
                       | Inr buffers \<Rightarrow>
                           (Inr (buffers, returned_futures'),
                            calls @ [Call_LoadedExecutable_Execute args]))))"

subsection \<open>\<^verbatim>\<open>PjRtCApiLoadedExecutable::ExecuteWithSingleDevice\<close>\<close>

definition ExecuteWithSingleDevice ::
  "PjRtCApiLoadedExecutable \<Rightarrow> PjRtCApiBuffer list \<Rightarrow> PjRtCApiDevice \<Rightarrow> ExecuteOptions \<Rightarrow>
   PJRT_Event option \<Rightarrow> bool \<Rightarrow>
   (failure + PjRtCApiBuffer list \<times> PJRT_Event option) \<times> plugin_call list" where
  "ExecuteWithSingleDevice this argument_handles device options returned_future fill_future =
     (if send_callbacks options \<noteq> [] \<or> recv_callbacks options \<noteq> [] then
        (Inl (Error (Status kUnimplemented
           (''Send/recv callbacks not implemented for '' @
            ''PjRtCApiLoadedExecutable::ExecuteWithSingleDevice.''))), [])
      else
        (let argument_handles_vec = [argument_handles];
             device_complete_events = (if fill_future then Some [] else None)
         in case GetCommonExecuteArgs this argument_handles_vec options
                   device_complete_events of
              (Inl f, calls) \<Rightarrow> (Inl f, calls)
            | (Inr common, calls) \<Rightarrow>
               (let args = (cea_args common)\<lparr>ex_execute_device := Some (c_device device)\<rparr>
                in case PJRT_LoadedExecutable_Execute (c_api (executable_client this)) args of
                     Inl e \<Rightarrow> (Inl (Error e), calls @ [Call_LoadedExecutable_Execute args])
                   | Inr (outs, evs) \<Rightarrow>
                      (let output_lists = plugin_writes_outputs outs (ex_output_lists args);
                           events = plugin_writes_events evs (ex_device_complete_events args);
                           returned_future' =
                             (if fill_future
                              then (case events of
                                      Some (e # _) \<Rightarrow> Some e
                                    | _ \<Rightarrow> returned_future)
                              else returned_future)
                       in case Convert2DCBuffersToCppBuffers output_lists (ex_num_devices args)
                                 (size_t_to_int (length (hd (cea_c_output_lists_storage common))))
                                 (executable_client this) of
                            Inl f \<Rightarrow> (Inl f, calls @ [Call_LoadedExecutable_Execute args])
                          | Inr buffers \<Rightarrow>
                              (Inr (hd buffers, returned_future'),
                               calls @ [Call_LoadedExecutable_Execute args])))))"

definition ExecuteSharded ::
  "PjRtCApiLoadedExecutable \<Rightarrow> PjRtCApiBuffer list \<Rightarrow> PjRtCApiDevice \<Rightarrow> ExecuteOptions \<Rightarrow>
   PJRT_Event option \<Rightarrow> bool \<Rightarrow>
   (failure + PjRtCApiBuffer list \<times> PJRT_Event option) \<times> plugin_call list" where
  "ExecuteSharded this argument_handles device options returned_future fill_future =
     ExecuteWithSingleDevice this argument_handles device options returned_future fill_future"

definition ExecutePortable ::
  "PjRtCApiLoadedExecutable \<Rightarrow> PjRtCApiBuffer list \<Rightarrow> PjRtCApiDevice \<Rightarrow> ExecuteOptions \<Rightarrow>
   PJRT_Event option \<Rightarrow> bool \<Rightarrow>
   (failure + PjRtCApiBuffer list \<times> PJRT_Event option) \<times> plugin_call list" where
  "ExecutePortable this argument_handles device options returned_future fill_future =
     ExecuteWithSingleDevice this argument_handles device options returned_future fill_future"

subsection \<open>The contents of the plugin's buffers\<close>

text \<open>
  Modelled from the spec: what a plugin holds in a buffer is not among the sources. The
  device memory gives the contents of every buffer of every plugin client, as the literal
  that a transfer to the host yields. An ingestion that succeeds creates a buffer that
  holds the host data it was handed (with zero-copy semantics the buffer aliases that
  data), under the element type, the dimensions and the device layout it was handed; a
  copy that succeeds creates a buffer that holds the contents of the buffer copied. The
  other entry points leave the contents of the existing buffers as they are.
  \<open>plugin_stores api c call mem\<close> is the device memory after the client \<open>c\<close> of the plugin
  \<open>api\<close> received \<open>call\<close> in the device memory \<open>mem\<close>.
\<close>

type_synonym device_memory = "PJRT_Client \<Rightarrow> PJRT_Buffer \<Rightarrow> Literal"

definition plugin_stores ::
  "PJRT_Api \<Rightarrow> PJRT_Client \<Rightarrow> plugin_call \<Rightarrow> device_memory \<Rightarrow> device_memory" where
  "plugin_stores api c call mem =
     (case call of
        Call_Client_BufferFromHostBuffer args \<Rightarrow>
          (case PJRT_Client_BufferFromHostBuffer api args of
             Inl e \<Rightarrow> mem
           | Inr (buf, ev) \<Rightarrow>
               mem(c := (mem c)(buf :=
                 \<lparr>shape = \<lparr>element_type = bfhb_type args, dimensions = bfhb_dims args,
                            layout = bfhb_device_layout args\<rparr>,
                  untyped_data = bfhb_data args\<rparr>)))
      | Call_Buffer_CopyToDevice src dst \<Rightarrow>
          (case PJRT_Buffer_CopyToDevice api src dst of
             Inl e \<Rightarrow> mem
           | Inr buf \<Rightarrow> mem(c := (mem c)(buf := mem c src)))
      | Call_Buffer_CopyToMemory src dst \<Rightarrow>
          (case PJRT_Buffer_CopyToMemory api src dst of
             Inl e \<Rightarrow> mem
           | Inr buf \<Rightarrow> mem(c := (mem c)(buf := mem c src)))
      | _ \<Rightarrow> mem)"

definition plugin_memory_after ::
  "PJRT_Api \<Rightarrow> PJRT_Client \<Rightarrow> plugin_call list \<Rightarrow> device_memory \<Rightarrow> device_memory" where
  "plugin_memory_after api c cs mem = fold (plugin_stores api c) cs mem"

text \<open>
  Modelled from the spec: \<^verbatim>\<open>ToLiteralSync\<close> is a method of the buffer base class, which is
  not among the sources. It transfers the contents of the buffer to a new host literal and
  waits for the transfer: it returns the error of the transfer or the literal.
\<close>

definition ToLiteralSync :: "pjrt_helpers \<Rightarrow> device_memory \<Rightarrow> PjRtCApiBuffer \<Rightarrow> Status + Literal" where
  "ToLiteralSync h mem this =
     (case ToLiteralSync_error h this of
        Some e \<Rightarrow> Inl e
      | None \<Rightarrow> Inr (mem (c_client (buffer_client this)) (c_buffer this)))"

subsection \<open>\<^verbatim>\<open>PjRtCApiBuffer::CopyToDevice\<close> and \<^verbatim>\<open>PjRtCApiBuffer::CopyToMemorySpace\<close>\<close>

text \<open>
  The destination's client is a client of this adapter; on it the virtual call of
  \<^verbatim>\<open>BufferFromHostBuffer\<close> is the overload of the same argument list. \<open>mem\<close> is the
  device memory at the call.
\<close>

definition CopyToDevice ::
  "pjrt_helpers \<Rightarrow> device_memory \<Rightarrow> PjRtCApiBuffer \<Rightarrow> PjRtCApiDevice \<Rightarrow>
   (failure + PjRtCApiBuffer) \<times> plugin_call list" where
  "CopyToDevice h mem this dst_device =
     (if client_addr (device_client dst_device) = client_addr (buffer_client this) then
        (case PJRT_Buffer_CopyToDevice (c_api (buffer_client this)) (c_buffer this)
                (c_device dst_device) of
           Inl e \<Rightarrow>
             (Inl (Error e), [Call_Buffer_CopyToDevice (c_buffer this) (c_device dst_device)])
         | Inr dst_buffer \<Rightarrow>
             (Inr (new_PjRtCApiBuffer (buffer_client this) dst_buffer),
              [Call_Buffer_CopyToDevice (c_buffer this) (c_device dst_device)]))
      else
        (case ToLiteralSync h mem this of
           Inl e \<Rightarrow> (Inl (Error e), [Call_ToLiteralSync (c_buffer this)])
         | Inr literal \<Rightarrow>
            (case ByteStrides h (shape literal) of
               Inl e \<Rightarrow> (Inl (Error e), [Call_ToLiteralSync (c_buffer this)])
             | Inr byte_strides \<Rightarrow>
                (case BufferFromHostBuffer_device h (device_client dst_device)
                        (untyped_data literal) (element_type (shape literal))
                        (dimensions (shape literal)) (Some byte_strides) kZeroCopy
                        (Some (FreesLiteral literal)) dst_device of
                   (r, calls) \<Rightarrow> (r, Call_ToLiteralSync (c_buffer this) # calls)))))"

definition CopyToMemorySpace ::
  "pjrt_helpers \<Rightarrow> device_memory \<Rightarrow> PjRtCApiBuffer \<Rightarrow> PjRtCApiMemorySpace \<Rightarrow>
   (failure + PjRtCApiBuffer) \<times> plugin_call list" where
  "CopyToMemorySpace h mem this dst_memory =
     (if minor_version (c_api (buffer_client this)) < 32 then
        (Inl (Unimplemented
           (''The plugin has PJRT API version 0.32 which does not support '' @
            ''CopyToMemorySpace'')), [])
      else if client_addr (memory_client dst_memory) = client_addr (buffer_client this) then
        (case PJRT_Buffer_CopyToMemory (c_api (buffer_client this)) (c_buffer this)
                (c_memory dst_memory) of
           Inl e \<Rightarrow>
             (Inl (Error e), [Call_Buffer_CopyToMemory (c_buffer this) (c_memory dst_memory)])
         | Inr dst_buffer \<Rightarrow>
             (Inr (new_PjRtCApiBuffer (buffer_client this) dst_buffer),
              [Call_Buffer_CopyToMemory (c_buffer this) (c_memory dst_memory)]))
      else
        (case ToLiteralSync h mem this of
           Inl e \<Rightarrow> (Inl (Error e), [Call_ToLiteralSync (c_buffer this)])
         | Inr literal \<Rightarrow>
            (case ByteStrides h (shape literal) of
               Inl e \<Rightarrow> (Inl (Error e), [Call_ToLiteralSync (c_buffer this)])
             | Inr byte_strides \<Rightarrow>
                (case BufferFromHostBuffer_memory h (memory_client dst_memory)
                        (untyped_data literal) (element_type (shape literal))
                        (dimensions (shape literal)) (Some byte_strides) kZeroCopy
                        (Some (FreesLiteral literal)) dst_memory None of
                   (r, calls) \<Rightarrow> (r, Call_ToLiteralSync (c_buffer this) # calls)))))"

subsection \<open>Promises and plugin events\<close>

text \<open>
  Modelled from the spec: the promise type and the plugin's events are not among the
  sources. A promise is single-assignment: unset (\<open>None\<close>) or set to a status
  (\<open>Some None\<close> is OK); setting a promise that is set ends the process. A plugin event is
  fire-once: it completes at most once, with an error or without; a closure registered
  before completion is invoked at completion, a closure registered after completion is
  invoked promptly, and each closure is invoked once. A registration the plugin refuses
  with an error keeps no closure.
\<close>

record world =
  promises :: "Status option option list"
  registered :: "(PJRT_Event \<times> on_ready_closure) list"
  completed :: "(PJRT_Event \<times> Status option) list"
  calls :: "plugin_call list"
  promise_sets :: "(nat \<times> Status option) list"

definition empty_world :: world where
  "empty_world = \<lparr>promises = [], registered = [], completed = [], calls = [],
                    promise_sets = []\<rparr>"

definition Promise_Set :: "nat \<Rightarrow> Status option \<Rightarrow> world \<Rightarrow> failure + world" where
  "Promise_Set p st w =
     (if p < length (promises w) \<and> promises w ! p = None then
        Inr (w\<lparr>promises := (promises w)[p := Some st],
               promise_sets := promise_sets w @ [(p, st)]\<rparr>)
      else Inl Fatal)"

fun invoke_closure :: "on_ready_closure \<Rightarrow> Status option \<Rightarrow> world \<Rightarrow> failure + world" where
  "invoke_closure (SetsPromise p) err w = Promise_Set p err w"
| "invoke_closure (CallsOnDone cb) err w = Inr w"

fun invoke_closures :: "on_ready_closure list \<Rightarrow> Status option \<Rightarrow> world \<Rightarrow> failure + world" where
  "invoke_closures [] err w = Inr w"
| "invoke_closures (c # cs) err w =
     (case invoke_closure c err w of Inl f \<Rightarrow> Inl f | Inr w' \<Rightarrow> invoke_closures cs err w')"

definition plugin_Event_OnReady ::
  "PJRT_Api \<Rightarrow> PJRT_Event \<Rightarrow> on_ready_closure \<Rightarrow> world \<Rightarrow> failure + Status option \<times> world" where
  "plugin_Event_OnReady api ev closure w =
     (let w1 = w\<lparr>calls := calls w @ [Call_Event_OnReady ev closure]\<rparr>
      in case PJRT_Event_OnReady api ev of
           Some e \<Rightarrow> Inr (Some e, w1)
         | None \<Rightarrow>
            (case map_of (completed w1) ev of
               Some err \<Rightarrow>
                 (case invoke_closure closure err w1 of
                    Inl f \<Rightarrow> Inl f
                  | Inr w2 \<Rightarrow> Inr (None, w2))
             | None \<Rightarrow> Inr (None, w1\<lparr>registered := registered w1 @ [(ev, closure)]\<rparr>)))"

definition plugin_completes_event :: "PJRT_Event \<Rightarrow> Status option \<Rightarrow> world \<Rightarrow> failure + world" where
  "plugin_completes_event ev err w =
     (case map_of (completed w) ev of
        Some _ \<Rightarrow> Inr w
      | None \<Rightarrow>
          invoke_closures (map snd (filter (\<lambda>r. fst r = ev) (registered w))) err
            (w\<lparr>completed := completed w @ [(ev, err)],
               registered := filter (\<lambda>r. fst r \<noteq> ev) (registered w)\<rparr>))"

subsection \<open>\<^verbatim>\<open>PjRtCApiBuffer::GetReadyFuture\<close>\<close>

definition GetReadyEvent ::
  "PjRtCApiBuffer \<Rightarrow> world \<Rightarrow> failure + PJRT_Event \<times> PjRtCApiBuffer \<times> world" where
  "GetReadyEvent this w =
     (case readiness_event this of
        None \<Rightarrow>
          (case PJRT_Buffer_ReadyEvent (c_api (buffer_client this)) (c_buffer this) of
             Inl e \<Rightarrow> Inl Fatal
           | Inr event \<Rightarrow>
               Inr (event, this\<lparr>readiness_event := Some event\<rparr>,
                    w\<lparr>calls := calls w @ [Call_Buffer_ReadyEvent (c_buffer this)]\<rparr>))
      | Some event \<Rightarrow> Inr (event, this, w))"

definition MakePromiseTrackEvent ::
  "PjRtCApiBuffer \<Rightarrow> world \<Rightarrow> failure + PjRtCApiBuffer \<times> world" where
  "MakePromiseTrackEvent this w =
     (case readiness_promise this of
        None \<Rightarrow> Inl Fatal
      | Some promise \<Rightarrow>
         (case GetReadyEvent this w of
            Inl f \<Rightarrow> Inl f
          | Inr (event, this1, w1) \<Rightarrow>
             (case plugin_Event_OnReady (c_api (buffer_client this1)) event
                     (SetsPromise promise) w1 of
                Inl f \<Rightarrow> Inl f
              | Inr (None, w2) \<Rightarrow> Inr (this1, w2)
              | Inr (Some e, w2) \<Rightarrow>
                 (case Promise_Set promise (Some e) w2 of
                    Inl f \<Rightarrow> Inl f
                  | Inr w3 \<Rightarrow> Inr (this1, w3)))))"

text \<open>The future returned is the address of the promise it shares its state with.\<close>

definition GetReadyFuture ::
  "PjRtCApiBuffer \<Rightarrow> world \<Rightarrow> failure + nat \<times> PjRtCApiBuffer \<times> world" where
  "GetReadyFuture this w =
     (case readiness_promise this of
        None \<Rightarrow>
          (let promise = length (promises w);
               w1 = w\<lparr>promises := promises w @ [None]\<rparr>;
               this1 = this\<lparr>readiness_promise := Some promise\<rparr>
           in case MakePromiseTrackEvent this1 w1 of
                Inl f \<Rightarrow> Inl f
              | Inr (this2, w2) \<Rightarrow> Inr (promise, this2, w2))
      | Some promise \<Rightarrow> Inr (promise, this, w))"

text \<open>What a holder of the future observes: \<open>None\<close> while the promise is unset.\<close>

definition future_status :: "nat \<Rightarrow> world \<Rightarrow> Status option option" where
  "future_status future w = (if future < length (promises w) then promises w ! future else None)"

text \<open>
  A history of one buffer: calls of \<^verbatim>\<open>GetReadyFuture\<close> interleaved with the plugin
  completing the buffer's ready event.
\<close>

datatype ready_op = CallGetReadyFuture | PluginCompletes "Status option"

fun run_ready_ops ::
  "PJRT_Event \<Rightarrow> ready_op list \<Rightarrow> PjRtCApiBuffer \<Rightarrow> world \<Rightarrow>
   failure + nat list \<times> PjRtCApiBuffer \<times> world" where
  "run_ready_ops ev [] this w = Inr ([], this, w)"
| "run_ready_ops ev (CallGetReadyFuture # ops) this w =
     (case GetReadyFuture this w of
        Inl f \<Rightarrow> Inl f
      | Inr (future, this1, w1) \<Rightarrow>
         (case run_ready_ops ev ops this1 w1 of
            Inl f \<Rightarrow> Inl f
          | Inr (futures, this2, w2) \<Rightarrow> Inr (future # futures, this2, w2)))"
| "run_ready_ops ev (PluginCompletes err # ops) this w =
     (case plugin_completes_event ev err w of
        Inl f \<Rightarrow> Inl f
      | Inr w1 \<Rightarrow> run_ready_ops ev ops this w1)"

text \<open>
  The error the plugin completes the event with in a history (\<open>Some None\<close> when it
  completes it without error), \<open>None\<close> when the history has no completion. Later
  completions are not the event's: it is fire-once.
\<close>

fun completion_of :: "ready_op list \<Rightarrow> Status option option" where
  "completion_of [] = None"
| "completion_of (PluginCompletes err # ops) = Some err"
| "completion_of (CallGetReadyFuture # ops) = completion_of ops"

subsection \<open>\<^verbatim>\<open>PjRtCApiClient::InitDevicesAndMemorySpaces\<close>\<close>

text \<open>
  The members of the client that the initialization builds, and the entry points it has
  invoked. They are a record of their own because devices and memory spaces refer back to
  the client.
\<close>

record client_graph =
  owned_devices :: "PjRtCApiDevice list"
  devices :: "nat list"
  c_to_cpp_device_map :: "PJRT_Device \<Rightarrow> nat option"
  addressable_devices :: "nat list"
  owned_memory_spaces :: "PjRtCApiMemorySpace list"
  addressable_memory_spaces :: "nat list"
  c_to_cpp_memory_map :: "PJRT_Memory \<Rightarrow> nat option"
  init_calls :: "plugin_call list"



definition GetCppMemory :: "client_graph \<Rightarrow> PJRT_Memory \<Rightarrow> failure + nat" where
  "GetCppMemory g c_mem = (case c_to_cpp_memory_map g c_mem of None \<Rightarrow> Inl Fatal | Some m \<Rightarrow> Inr m)"


fun GetCppMemories :: "client_graph \<Rightarrow> PJRT_Memory list \<Rightarrow> failure + nat list" where
  "GetCppMemories g [] = Inr []"
| "GetCppMemories g (c_mem # rest) =
     (case GetCppMemory g c_mem of
        Inl f \<Rightarrow> Inl f
      | Inr m \<Rightarrow> (case GetCppMemories g rest of Inl f \<Rightarrow> Inl f | Inr ms \<Rightarrow> Inr (m # ms)))"









text \<open>
  Attach memory spaces to devices: the loop over the addressable devices, left by
  \<^verbatim>\<open>break\<close> at the first device whose query reports an error.
\<close>

fun AttachMemorySpacesToDevices ::
  "PjRtCApiClient \<Rightarrow> nat list \<Rightarrow> client_graph \<Rightarrow> failure + client_graph" where
  "AttachMemorySpacesToDevices this [] g = Inr g"
| "AttachMemorySpacesToDevices this (device # rest) g =
     (let cpp_device = owned_devices g ! device;
          g1 = g\<lparr>init_calls := init_calls g @
                    [Call_Device_AddressableMemories (c_device cpp_device)]\<rparr>
      in case PJRT_Device_AddressableMemories (c_api this) (c_device cpp_device) of
           Inl device_error \<Rightarrow>
             (if code device_error \<noteq> kUnimplemented then Inl Fatal else Inr g1)
         | Inr memories \<Rightarrow>
            (case int_loop (GetCppMemories g1) memories of
               Inl f \<Rightarrow> Inl f
             | Inr ms \<Rightarrow>
                 AttachMemorySpacesToDevices this rest
                   (g1\<lparr>owned_devices := (owned_devices g1)
                          [device := cpp_device\<lparr>device_memory_spaces :=
                                       device_memory_spaces cpp_device @ ms\<rparr>]\<rparr>)))"



subsection \<open>The constructor of the client\<close>




subsection \<open>\<^verbatim>\<open>GetCApiClient\<close>\<close>


subsection \<open>Example plugins and objects\<close>

text \<open>
  A plugin of ABI minor version \<open>v\<close> with two devices that implements no memory-space
  query and accepts every other call.
\<close>

definition demo_api :: "nat \<Rightarrow> PJRT_Api" where
  "demo_api v =
     \<lparr>minor_version = v,
      PJRT_Client_Create = (\<lambda>_. Inr 1),
      PJRT_TopologyDescription_Attributes = (\<lambda>_. Inr []),
      PJRT_DeviceDescription_Attributes =
        (\<lambda>_. Inr [\<lparr>nv_name = ''core_count'', nv_value = int64_value 2\<rparr>]),
      PJRT_Client_Devices = (\<lambda>_. Inr [10, 11]),
      PJRT_Client_AddressableDevices = (\<lambda>_. Inr [10, 11]),
      PJRT_Client_AddressableMemories = (\<lambda>_. Inl (Status kUnimplemented ''no memories'')),
      PJRT_Device_AddressableMemories = (\<lambda>_. Inl (Status kUnimplemented ''no memories'')),
      PJRT_Memory_AddressableByDevices = (\<lambda>_. Inr []),
      PJRT_Buffer_UnsafePointer = (\<lambda>b. Inr (4096 + b)),
      PJRT_Client_BufferFromHostBuffer = (\<lambda>a. Inr (100, 200)),
      PJRT_Event_OnReady = (\<lambda>_. None),
      PJRT_Client_CreateViewOfDeviceBuffer = (\<lambda>_. Inr 101),
      PJRT_Executable_NumOutputs = (\<lambda>_. Inr 2),
      PJRT_LoadedExecutable_Execute = (\<lambda>_. Inr (\<lambda>i j. 300 + 10 * i + j, \<lambda>i. 400 + i)),
      PJRT_Buffer_CopyToDevice = (\<lambda>b d. Inr (500 + b)),
      PJRT_Buffer_CopyToMemory = (\<lambda>b m. Inr (550 + b)),
      PJRT_Buffer_ReadyEvent = (\<lambda>b. Inr (600 + b))\<rparr>"

definition demo_client :: "nat \<Rightarrow> nat \<Rightarrow> string \<Rightarrow> PjRtCApiClient" where
  "demo_client addr v name =
     \<lparr>client_addr = addr, c_api = demo_api v, c_client = addr, kv_callback_data = None,
      topo_desc = Inr \<lparr>c_topology = 800, topology_attributes = []\<rparr>,
      platform_version = ''PJRT C API'' @ [CHR 0x0A] @ ''demo'',
      platform_name = name\<rparr>"

text \<open>
  Helpers that find the plugin \<open>demo_api 40\<close> for the device type \<open>tpu\<close> only and succeed
  otherwise.
\<close>

definition demo_helpers :: pjrt_helpers where
  "demo_helpers =
     \<lparr>ConvertToBufferMemoryLayoutData = (\<lambda>l. Inr l),
      PjrtApi = (\<lambda>device_type. if device_type = ''tpu'' then Inr (Some (demo_api 40))
                   else Inl (Status kNotFound ''no plugin for the device type'')),
      ConvertToPjRtNamedValueList = (\<lambda>options v. Inr options),
      ConvertToCKeyValueCallbacks =
        (\<lambda>get put. \<lparr>c_kv_get = 900, kv_get_c_func = get, c_kv_put = 901,
                     kv_put_c_func = put\<rparr>),
      GetTopologyDescription = (\<lambda>c api. Inr 800),
      ConvertFromPjRtNamedValueList = (\<lambda>l. Inr (map (\<lambda>v. (nv_name v, nv_value v)) l)),
      GetPlatformVersion = (\<lambda>c api. Inr ''demo''),
      GetPlatformName = (\<lambda>c api. Inr ''tpu''),
      GetDeviceDescription = (\<lambda>api d. Inr (700 + d)),
      ByteStrides = (\<lambda>s. Inr [1]),
      ToLiteralSync_error = (\<lambda>b. None)\<rparr>"

text \<open>
  A device memory in which the buffer \<open>b\<close> of the plugin client 1 holds the three bytes
  \<open>b\<close>, \<open>b + 1\<close>, \<open>b + 2\<close>, and the buffers of the other plugin clients hold no data.
\<close>

definition demo_device_memory :: device_memory where
  "demo_device_memory =
     (\<lambda>c b. if c = 1
            then \<lparr>shape = \<lparr>element_type = 5, dimensions = [3], layout = None\<rparr>,
                  untyped_data = [b, b + 1, b + 2]\<rparr>
            else \<lparr>shape = \<lparr>element_type = 5, dimensions = [0], layout = None\<rparr>,
                  untyped_data = []\<rparr>)"

definition demo_description :: "PJRT_Device \<Rightarrow> PjRtCApiDeviceDescription" where
  "demo_description d =
     \<lparr>device_description = 700 + d, attributes = [''core_count'' \<mapsto> AttrInt64 2]\<rparr>"

definition demo_device :: "PjRtCApiClient \<Rightarrow> PjRtCApiDevice" where
  "demo_device cl = \<lparr>device_client = cl, c_device = 10, description = demo_description 10,
                      device_memory_spaces = []\<rparr>"

definition demo_memory :: "PjRtCApiClient \<Rightarrow> PjRtCApiMemorySpace" where
  "demo_memory cl = \<lparr>memory_client = cl, c_memory = 20, memory_devices = []\<rparr>"

definition demo_executable :: PjRtCApiLoadedExecutable where
  "demo_executable = \<lparr>executable_client = demo_client 1 40 ''tpu'', c_loaded_executable = 30,
                       c_executable = 31\<rparr>"

definition demo_options :: "SendCallback list list \<Rightarrow> bool \<Rightarrow> ExecuteOptions" where
  "demo_options sends major_to_minor =
     \<lparr>launch_id = 0, send_callbacks = sends, recv_callbacks = [],
      use_major_to_minor_data_layout_for_callbacks = major_to_minor\<rparr>"




text \<open>
  An executable whose plugin declares \<open>2 ^ 32 + 2\<close> outputs, a count that does not fit the
  \<^verbatim>\<open>int\<close> parameter of \<^verbatim>\<open>Convert2DCBuffersToCppBuffers\<close>.
\<close>

definition demo_executable_many_outputs :: PjRtCApiLoadedExecutable where
  "demo_executable_many_outputs =
     \<lparr>executable_client =
        (demo_client 1 40 ''tpu'')
          \<lparr>c_api := (demo_api 40)\<lparr>PJRT_Executable_NumOutputs := (\<lambda>_. Inr 4294967298)\<rparr>\<rparr>,
      c_loaded_executable = 30, c_executable = 31\<rparr>"

section \<open>Properties of the client\<close>

subsection \<open>Host-buffer semantics\<close>

text \<open>
  C3. A call of \<^verbatim>\<open>BufferFromHostBuffer\<close>, through any of its overloads, with a
  \<^verbatim>\<open>HostBufferSemantics\<close> value other than the three supported ones returns an
  Unimplemented error and invokes no plugin entry point: nothing is ingested and no buffer
  is created.
\<close>

theorem BufferFromHostBuffer_unsupported_semantics:
  assumes "sem \<noteq> kImmutableOnlyDuringCall"
    and "sem \<noteq> kImmutableUntilTransferCompletes"
    and "sem \<noteq> kZeroCopy"
  shows "\<exists>msg.
     BufferFromHostBufferInternalImpl h this data type dims strides sem on_done dm lay
       = (Inl (Error (Status kUnimplemented msg)), []) \<and>
     BufferFromHostBuffer_memory h this data type dims strides sem on_done mem lay
       = (Inl (Error (Status kUnimplemented msg)), []) \<and>
     BufferFromHostBuffer_device_layout h this data type dims strides sem on_done dev lay
       = (Inl (Error (Status kUnimplemented msg)), []) \<and>
     BufferFromHostBuffer_device h this data type dims strides sem on_done dev
       = (Inl (Error (Status kUnimplemented msg)), [])"
  using assms
  by (simp add: BufferFromHostBufferInternalImpl_def BufferFromHostBuffer_memory_def
      BufferFromHostBuffer_device_layout_def BufferFromHostBuffer_device_def Unimplemented_def)

theorem BufferFromHostBuffer_unsupported_semantics_witness:
  "kOtherSemantics 3 \<noteq> kImmutableOnlyDuringCall \<and>
   kOtherSemantics 3 \<noteq> kImmutableUntilTransferCompletes \<and>
   kOtherSemantics 3 \<noteq> kZeroCopy \<and>
   (\<exists>msg. BufferFromHostBuffer_device demo_helpers (demo_client 1 40 ''tpu'') [1, 2, 3] 5 [3]
             None (kOtherSemantics 3) (Some (UserCallback 9))
             (demo_device (demo_client 1 40 ''tpu''))
           = (Inl (Error (Status kUnimplemented msg)), []))"
proof -
  have h1: "kOtherSemantics 3 \<noteq> kImmutableOnlyDuringCall"
    and h2: "kOtherSemantics 3 \<noteq> kImmutableUntilTransferCompletes"
    and h3: "kOtherSemantics 3 \<noteq> kZeroCopy"
    by simp_all
  from BufferFromHostBuffer_unsupported_semantics [OF h1 h2 h3,
      of demo_helpers "demo_client 1 40 ''tpu''" "[1, 2, 3]" 5 "[3]" None
         "Some (UserCallback 9)" "Inl (demo_device (demo_client 1 40 ''tpu''))" None
         "demo_memory (demo_client 1 40 ''tpu'')" "demo_device (demo_client 1 40 ''tpu'')"]
  show ?thesis
    using h1 h2 h3 by blast
qed

subsection \<open>Raw buffer pointers\<close>

text \<open>
  C4. \<^verbatim>\<open>UnsafeBufferPointer\<close> on a buffer whose owning client is not the client the
  method is invoked on returns an Invalid-argument error whose message names the platform
  of the buffer's client and the platform of the calling client, and invokes no plugin
  entry point. When the clients are the same, the pointer entry point of the plugin is
  invoked once on the buffer's handle and its answer is the result: the pointer, or the
  error the plugin reports.
\<close>

theorem UnsafeBufferPointer_checks_client:
  "(client_addr (buffer_client buffer) \<noteq> client_addr this \<longrightarrow>
      UnsafeBufferPointer this buffer =
        (Inl (Error (Status kInvalidArgument
           (UnsafeBufferPointer_message (platform_name (buffer_client buffer))
              (platform_name this)))), []) \<and>
      (\<exists>pre mid post.
         UnsafeBufferPointer_message (platform_name (buffer_client buffer)) (platform_name this) =
           pre @ platform_name (buffer_client buffer) @ mid @ platform_name this @ post)) \<and>
   (client_addr (buffer_client buffer) = client_addr this \<longrightarrow>
      UnsafeBufferPointer this buffer =
        (map_sum Error id (PJRT_Buffer_UnsafePointer (c_api this) (c_buffer buffer)),
         [Call_Buffer_UnsafePointer (c_buffer buffer)]))"
proof -
  have shape_of_message: "\<exists>pre mid post. UnsafeBufferPointer_message a b = pre @ a @ mid @ b @ post"
    for a b
    unfolding UnsafeBufferPointer_message_def
    by (metis append.assoc)
  show ?thesis
    using shape_of_message
    by (simp add: UnsafeBufferPointer_def InvalidArgument_def split: sum.split)
qed

theorem UnsafeBufferPointer_checks_client_witness:
  "client_addr (buffer_client (new_PjRtCApiBuffer (demo_client 2 40 ''gpu'') 7)) \<noteq>
     client_addr (demo_client 1 40 ''tpu'') \<and>
   UnsafeBufferPointer (demo_client 1 40 ''tpu'') (new_PjRtCApiBuffer (demo_client 2 40 ''gpu'') 7) =
     (Inl (Error (Status kInvalidArgument (UnsafeBufferPointer_message ''gpu'' ''tpu''))), []) \<and>
   UnsafeBufferPointer (demo_client 1 40 ''tpu'') (new_PjRtCApiBuffer (demo_client 1 40 ''tpu'') 7) =
     (Inr 4103, [Call_Buffer_UnsafePointer 7])"
  using UnsafeBufferPointer_checks_client [of "new_PjRtCApiBuffer (demo_client 2 40 ''gpu'') 7"
      "demo_client 1 40 ''tpu''"]
    UnsafeBufferPointer_checks_client [of "new_PjRtCApiBuffer (demo_client 1 40 ''tpu'') 7"
      "demo_client 1 40 ''tpu''"]
  by (simp add: new_PjRtCApiBuffer_def demo_client_def demo_api_def)

subsection \<open>Views of device buffers\<close>

text \<open>
  C10. A call of \<^verbatim>\<open>CreateViewOfDeviceBuffer\<close> against a plugin whose ABI minor version is
  less than 33 never invokes the plugin's view-creation entry point: it invokes no entry
  point at all, and it never returns a buffer. It returns the Unimplemented error of the
  version check. The conversion of the layout of the shape precedes the check; it is a
  helper whose body is not among the sources, and the error is stated for the calls in
  which the helper converts the layout, if the shape carries one.
\<close>

theorem CreateViewOfDeviceBuffer_version_gate:
  assumes "minor_version (c_api this) < 33"
  shows "snd (CreateViewOfDeviceBuffer h this device_ptr shp device on_delete_callback stream) = [] \<and>
         isl (fst (CreateViewOfDeviceBuffer h this device_ptr shp device on_delete_callback stream)) \<and>
         ((\<forall>l. layout shp = Some l \<longrightarrow> (\<exists>c. ConvertToBufferMemoryLayoutData h l = Inr c)) \<longrightarrow>
          fst (CreateViewOfDeviceBuffer h this device_ptr shp device on_delete_callback stream) =
            Inl (Error (Status kUnimplemented
                   ''The plugin does not support CreateViewOfDeviceBuffer'')))"
  using assms
  by (auto simp add: CreateViewOfDeviceBuffer_def Unimplemented_def
      split: option.split sum.split)

theorem CreateViewOfDeviceBuffer_version_gate_witness:
  "minor_version (c_api (demo_client 1 32 ''tpu'')) < 33 \<and>
   (\<exists>c. ConvertToBufferMemoryLayoutData demo_helpers [0] = Inr c) \<and>
   CreateViewOfDeviceBuffer demo_helpers (demo_client 1 32 ''tpu'') 4096
     \<lparr>element_type = 5, dimensions = [3], layout = Some [0]\<rparr>
     (demo_device (demo_client 1 32 ''tpu'')) None None =
   (Inl (Error (Status kUnimplemented ''The plugin does not support CreateViewOfDeviceBuffer'')), [])"
proof -
  have v: "minor_version (c_api (demo_client 1 32 ''tpu'')) < 33"
    by (simp add: demo_client_def demo_api_def)
  have c: "\<exists>c. ConvertToBufferMemoryLayoutData demo_helpers [0] = Inr c"
    by (simp add: demo_helpers_def)
  show ?thesis
    using v c CreateViewOfDeviceBuffer_version_gate [OF v, of demo_helpers 4096
        "\<lparr>element_type = 5, dimensions = [3], layout = Some [0]\<rparr>"
        "demo_device (demo_client 1 32 ''tpu'')" None None]
    by (simp add: prod_eq_iff)
qed

section \<open>Properties of execution\<close>

subsection \<open>What the common marshalling does\<close>

lemma GetCommonExecuteArgs_layout_flag:
  assumes "send_callbacks options \<noteq> [] \<or> recv_callbacks options \<noteq> []"
    and "\<not> use_major_to_minor_data_layout_for_callbacks options"
  shows "GetCommonExecuteArgs this hs options dce =
    (Inl (Unimplemented (''PJRT C API doesn'' @ [CHR 0x27] @ ''t support '' @
               ''ExecuteOptions::use_major_to_minor_data_layout_for_callbacks = false'')), [])"
  using assms by (simp add: GetCommonExecuteArgs_def)

lemma GetCommonExecuteArgs_flag_ignored:
  assumes "send_callbacks options = []" "recv_callbacks options = []"
  shows "GetCommonExecuteArgs this hs (options\<lparr>use_major_to_minor_data_layout_for_callbacks := b\<rparr>) dce
       = GetCommonExecuteArgs this hs options dce"
  using assms by (simp add: GetCommonExecuteArgs_def Let_def split: sum.split)

lemma GetCommonExecuteArgs_presizes:
  assumes "GetCommonExecuteArgs this hs options dce = (Inr common, cs)"
  shows "\<exists>K. PJRT_Executable_NumOutputs (c_api (executable_client this)) (c_executable this) = Inr K \<and>
             cs = [Call_Executable_NumOutputs (c_executable this)] \<and>
             ex_output_lists (cea_args common) = replicate (length hs) (replicate K nullptr) \<and>
             cea_c_output_lists_storage common = replicate (length hs) (replicate K nullptr) \<and>
             ex_num_devices (cea_args common) = length hs \<and> 0 < length hs"
  using assms
  by (auto simp: GetCommonExecuteArgs_def Let_def split: if_splits sum.splits)

lemma plugin_writes_outputs_presized:
  "plugin_writes_outputs outs (replicate D (replicate K v)) =
     map (\<lambda>i. map (\<lambda>j. outs i j) [0..<K]) [0..<D]"
  by (simp add: plugin_writes_outputs_def)

lemma size_t_to_int_le: "size_t_to_int K \<le> int K"
proof -
  have "int K mod 4294967296 \<le> int K"
    by (rule zmod_le_nonneg_dividend) simp
  then show ?thesis
    by (simp add: size_t_to_int_def Let_def)
qed

lemma size_t_to_int_small: "int K \<le> INT_MAX \<Longrightarrow> size_t_to_int K = int K"
  by (simp add: size_t_to_int_def INT_MAX_def Let_def)

lemma Convert2DCBuffersToCppBuffers_written:
  assumes "0 < D" and "0 \<le> k" and "nat k \<le> K"
  shows "Convert2DCBuffersToCppBuffers (map (\<lambda>i. map (\<lambda>j. outs i j) [0..<K]) [0..<D]) D k cl =
     Inr (map (\<lambda>i. map (\<lambda>j. new_PjRtCApiBuffer cl (outs i j)) [0..<nat k]) [0..<D])"
  using assms
  by (simp add: Convert2DCBuffersToCppBuffers_def list_all_iff)

lemma Convert2DCBuffersToCppBuffers_negative:
  assumes "0 < D" and "k < 0"
  shows "Convert2DCBuffersToCppBuffers c_lists D k cl = Inl Fatal"
  using assms by (simp add: Convert2DCBuffersToCppBuffers_def)










subsection \<open>The layout flag for host callbacks\<close>

text \<open>
  C5, as the code has it. An execute call whose options supply a send or a recv callback
  list and request a data layout for callbacks that is not major-to-minor returns an
  Unimplemented error without invoking the plugin, on the multi-device path and on the
  single-device paths alike. When the options supply no callback list, the flag has no
  effect on the call.
\<close>

theorem Execute_layout_flag:
  "((send_callbacks options \<noteq> [] \<or> recv_callbacks options \<noteq> []) \<and>
    \<not> use_major_to_minor_data_layout_for_callbacks options \<longrightarrow>
      (\<exists>msg. Execute this hs options futures = (Inl (Error (Status kUnimplemented msg)), [])) \<and>
      (\<exists>msg. ExecuteSharded this args device options future fill
                = (Inl (Error (Status kUnimplemented msg)), [])) \<and>
      (\<exists>msg. ExecutePortable this args device options future fill
                = (Inl (Error (Status kUnimplemented msg)), []))) \<and>
   (send_callbacks options = [] \<and> recv_callbacks options = [] \<longrightarrow>
      Execute this hs (options\<lparr>use_major_to_minor_data_layout_for_callbacks := b\<rparr>) futures
        = Execute this hs options futures \<and>
      ExecuteSharded this args device
          (options\<lparr>use_major_to_minor_data_layout_for_callbacks := b\<rparr>) future fill
        = ExecuteSharded this args device options future fill \<and>
      ExecutePortable this args device
          (options\<lparr>use_major_to_minor_data_layout_for_callbacks := b\<rparr>) future fill
        = ExecutePortable this args device options future fill)"
  by (simp add: Execute_def ExecuteSharded_def ExecutePortable_def ExecuteWithSingleDevice_def
      GetCommonExecuteArgs_layout_flag GetCommonExecuteArgs_flag_ignored Unimplemented_def)

theorem Execute_layout_flag_witness:
  "send_callbacks (demo_options [[(1, 2)]] False) \<noteq> [] \<and>
   \<not> use_major_to_minor_data_layout_for_callbacks (demo_options [[(1, 2)]] False) \<and>
   (\<exists>msg. Execute demo_executable [[new_PjRtCApiBuffer (demo_client 1 40 ''tpu'') 7]]
            (demo_options [[(1, 2)]] False) (Some [])
          = (Inl (Error (Status kUnimplemented msg)), [])) \<and>
   send_callbacks (demo_options [] True) = [] \<and> recv_callbacks (demo_options [] True) = [] \<and>
   Execute demo_executable [[new_PjRtCApiBuffer (demo_client 1 40 ''tpu'') 7]]
     ((demo_options [] True)\<lparr>use_major_to_minor_data_layout_for_callbacks := False\<rparr>) None
     = Execute demo_executable [[new_PjRtCApiBuffer (demo_client 1 40 ''tpu'') 7]]
         (demo_options [] True) None"
  using Execute_layout_flag [of "demo_options [[(1, 2)]] False" demo_executable
      "[[new_PjRtCApiBuffer (demo_client 1 40 ''tpu'') 7]]" "Some []"]
    Execute_layout_flag [of "demo_options [] True" demo_executable
      "[[new_PjRtCApiBuffer (demo_client 1 40 ''tpu'') 7]]" None _ _ _ _ False]
  by (simp add: demo_options_def)

text \<open>
  With no callback list and the flag false, the multi-device call runs: the plugin is
  invoked and its two outputs are returned.
\<close>

theorem Execute_layout_flag_counterexample:
  "\<not> use_major_to_minor_data_layout_for_callbacks (demo_options [] False) \<and>
   map_sum id (\<lambda>r. map (map c_buffer) (fst r))
     (fst (Execute demo_executable [[new_PjRtCApiBuffer (demo_client 1 40 ''tpu'') 7]]
             (demo_options [] False) None))
     = Inr [[300, 301]] \<and>
   length (snd (Execute demo_executable [[new_PjRtCApiBuffer (demo_client 1 40 ''tpu'') 7]]
                  (demo_options [] False) None)) = 2"
  by code_simp

subsection \<open>Output storage\<close>

text \<open>
  What a multi-device execute call without host callbacks returns when the plugin accepts
  the call and the number of outputs is not negative as an \<^verbatim>\<open>int\<close>.
\<close>

lemma Execute_without_callbacks:
  assumes nc: "send_callbacks options = []" "recv_callbacks options = []"
    and D: "0 < length hs" "int (length hs) \<le> INT_MAX"
    and K: "PJRT_Executable_NumOutputs (c_api (executable_client this)) (c_executable this) = Inr K"
    and E: "\<And>args. PJRT_LoadedExecutable_Execute (c_api (executable_client this)) args
                     = Inr (outs, evs)"
    and k: "0 \<le> size_t_to_int K"
  shows "fst (Execute this hs options None) =
           Inr (map (\<lambda>i. map (\<lambda>j. new_PjRtCApiBuffer (executable_client this) (outs i j))
                            [0..<nat (size_t_to_int K)]) [0..<length hs], None)"
proof -
  from k size_t_to_int_le [of K] have le: "nat (size_t_to_int K) \<le> K"
    by simp
  from D have hd: "hd (replicate (length hs) (replicate K nullptr)) = replicate K nullptr"
    by (cases "length hs") simp_all
  show ?thesis
    using nc D K E
    by (simp add: Execute_def GetCommonExecuteArgs_def Let_def hd
        plugin_writes_outputs_presized Convert2DCBuffersToCppBuffers_written [OF D(1) k le])
qed

text \<open>
  C7, as the code has it. When a multi-device execute call over \<open>D\<close> target devices
  succeeds, the plugin's execute entry point was invoked after the query of the
  executable's number of outputs \<open>K\<close>, with output storage of \<open>D\<close> lists of \<open>K\<close> cells
  each, and the result is a list of exactly \<open>D\<close> per-device lists. The number of buffers
  of a per-device list is what \<open>K\<close> becomes in the \<^verbatim>\<open>int\<close> parameter \<open>inner_size\<close> of
  \<^verbatim>\<open>Convert2DCBuffersToCppBuffers\<close>: it is \<open>K\<close> when \<open>K\<close> is at most \<open>INT_MAX\<close>, and it is
  not \<open>K\<close> above.
\<close>

theorem Execute_output_shape:
  assumes "Execute this argument_handles options returned_futures = (Inr (buffers, futures), cs)"
  shows "\<exists>K args.
           PJRT_Executable_NumOutputs (c_api (executable_client this)) (c_executable this) = Inr K \<and>
           cs = [Call_Executable_NumOutputs (c_executable this), Call_LoadedExecutable_Execute args] \<and>
           ex_output_lists args = replicate (length argument_handles) (replicate K nullptr) \<and>
           length buffers = length argument_handles \<and>
           (\<forall>per_device \<in> set buffers. int (length per_device) = size_t_to_int K) \<and>
           (int K \<le> INT_MAX \<longrightarrow> (\<forall>per_device \<in> set buffers. length per_device = K)) \<and>
           (INT_MAX < int K \<longrightarrow> (\<forall>per_device \<in> set buffers. length per_device < K))"
proof -
  let ?dce = "case returned_futures of None \<Rightarrow> None | Some _ \<Rightarrow> Some []"
  obtain r cs0 where g: "GetCommonExecuteArgs this argument_handles options ?dce = (r, cs0)"
    by (cases "GetCommonExecuteArgs this argument_handles options ?dce")
  from assms g obtain common where r: "r = Inr common"
    by (cases r) (auto simp: Execute_def)
  from g r GetCommonExecuteArgs_presizes [of this argument_handles options ?dce common cs0]
  obtain K where K: "PJRT_Executable_NumOutputs (c_api (executable_client this)) (c_executable this) = Inr K"
    and cs0: "cs0 = [Call_Executable_NumOutputs (c_executable this)]"
    and out: "ex_output_lists (cea_args common) = replicate (length argument_handles) (replicate K nullptr)"
    and sto: "cea_c_output_lists_storage common = replicate (length argument_handles) (replicate K nullptr)"
    and nd: "ex_num_devices (cea_args common) = length argument_handles"
    and pos: "0 < length argument_handles"
    by blast
  let ?args = "(cea_args common)\<lparr>ex_execute_device := None\<rparr>"
  let ?k = "size_t_to_int K"
  from pos have hdsto: "length (hd (cea_c_output_lists_storage common)) = K"
    by (cases "length argument_handles") (simp_all add: sto)
  from assms g r obtain outs evs where
    p: "PJRT_LoadedExecutable_Execute (c_api (executable_client this)) ?args = Inr (outs, evs)"
    by (auto simp: Execute_def Let_def split: sum.splits)
  from assms g r p out nd hdsto
  have conv: "Convert2DCBuffersToCppBuffers
                (map (\<lambda>i. map (\<lambda>j. outs i j) [0..<K]) [0..<length argument_handles])
                (length argument_handles) ?k (executable_client this) = Inr buffers"
    and cs: "cs = cs0 @ [Call_LoadedExecutable_Execute ?args]"
    by (auto simp: Execute_def Let_def plugin_writes_outputs_presized split: sum.splits)
  have nonneg: "0 \<le> ?k"
  proof (rule ccontr)
    assume "\<not> 0 \<le> ?k"
    then have "?k < 0" by simp
    from Convert2DCBuffersToCppBuffers_negative [OF pos this] conv show False
      by simp
  qed
  from nonneg size_t_to_int_le [of K] have le: "nat ?k \<le> K"
    by simp
  from conv Convert2DCBuffersToCppBuffers_written [OF pos nonneg le, of outs "executable_client this"]
  have buffers: "buffers = map (\<lambda>i. map (\<lambda>j. new_PjRtCApiBuffer (executable_client this) (outs i j))
                                   [0..<nat ?k]) [0..<length argument_handles]"
    by simp
  from buffers nonneg have lens: "\<forall>per_device \<in> set buffers. int (length per_device) = ?k"
    by auto
  have small: "int K \<le> INT_MAX \<longrightarrow> (\<forall>per_device \<in> set buffers. length per_device = K)"
    using lens size_t_to_int_small [of K] by auto
  have large: "INT_MAX < int K \<longrightarrow> (\<forall>per_device \<in> set buffers. length per_device < K)"
  proof (intro impI ballI)
    fix per_device
    assume big: "INT_MAX < int K" and "per_device \<in> set buffers"
    with lens have l: "int (length per_device) = ?k"
      by simp
    have "?k \<le> INT_MAX"
    proof -
      have b: "int K mod 4294967296 < 4294967296"
        by simp
      show ?thesis
        unfolding size_t_to_int_def INT_MAX_def Let_def
        using b by (simp only: split: if_split) linarith
    qed
    with l big show "length per_device < K"
      by simp
  qed
  from K cs cs0 out buffers lens small large show ?thesis
    by (intro exI [of _ K] exI [of _ ?args] conjI) simp_all
qed

text \<open>
  One device and a plugin that declares \<open>2 ^ 32 + 2\<close> outputs: the call succeeds and
  returns one per-device list of 2 buffers.
\<close>

theorem Execute_output_shape_witness:
  "\<exists>buffers futures cs.
     Execute demo_executable_many_outputs [[new_PjRtCApiBuffer (demo_client 1 40 ''tpu'') 7]]
       (demo_options [] True) None = (Inr (buffers, futures), cs) \<and>
     PJRT_Executable_NumOutputs (c_api (executable_client demo_executable_many_outputs))
       (c_executable demo_executable_many_outputs) = Inr 4294967298 \<and>
     map length buffers = [2]"
proof -
  let ?hs = "[[new_PjRtCApiBuffer (demo_client 1 40 ''tpu'') 7]]"
  let ?E = "Execute demo_executable_many_outputs ?hs (demo_options [] True) None"
  have K: "PJRT_Executable_NumOutputs (c_api (executable_client demo_executable_many_outputs))
             (c_executable demo_executable_many_outputs) = Inr 4294967298"
    by (simp add: demo_executable_many_outputs_def)
  have k: "size_t_to_int 4294967298 = 2"
    by (simp add: size_t_to_int_def)
  have "\<exists>r. fst ?E = Inr r"
    using Execute_without_callbacks [of "demo_options [] True" ?hs demo_executable_many_outputs
        4294967298 "\<lambda>i j. 300 + 10 * i + j" "\<lambda>i. 400 + i"] K k
    by (simp add: demo_options_def demo_executable_many_outputs_def demo_client_def
        demo_api_def INT_MAX_def)
  then obtain buffers futures where "fst ?E = Inr (buffers, futures)"
    by (cases "fst ?E") auto
  then have e: "?E = (Inr (buffers, futures), snd ?E)"
    by (simp add: prod_eq_iff)
  from Execute_output_shape [OF e] K k
  have "length buffers = 1" and "\<forall>per_device \<in> set buffers. int (length per_device) = 2"
    by auto
  then have m: "map length buffers = [2]"
    by (cases buffers) auto
  from e K m show ?thesis
    by (intro exI [of _ buffers] exI [of _ futures] exI [of _ "snd ?E"] conjI)
qed

subsection \<open>Host callbacks on the single-device paths\<close>



section \<open>Properties of client creation\<close>

subsection \<open>Key-value callbacks\<close>




section \<open>Properties of buffers\<close>

subsection \<open>Copies within a client and across clients\<close>

lemma BufferFromHostBufferInternalImpl_zero_copy:
  assumes "BufferFromHostBufferInternalImpl h cl data ty dims strides kZeroCopy (Some cb) dm None
             = (Inr b, cs)"
  shows "\<exists>ev. PJRT_Client_BufferFromHostBuffer (c_api cl)
                 \<lparr>bfhb_client = c_client cl, bfhb_data = data, bfhb_type = ty, bfhb_dims = dims,
                  bfhb_byte_strides = strides, bfhb_device_layout = None,
                  bfhb_host_buffer_semantics = kZeroCopy,
                  bfhb_device = (case dm of Inl d \<Rightarrow> Some (c_device d) | Inr m \<Rightarrow> None),
                  bfhb_memory = (case dm of Inl d \<Rightarrow> None | Inr m \<Rightarrow> Some (c_memory m))\<rparr>
               = Inr (c_buffer b, ev) \<and>
              cs = [Call_Client_BufferFromHostBuffer
                      \<lparr>bfhb_client = c_client cl, bfhb_data = data, bfhb_type = ty,
                       bfhb_dims = dims, bfhb_byte_strides = strides, bfhb_device_layout = None,
                       bfhb_host_buffer_semantics = kZeroCopy,
                       bfhb_device = (case dm of Inl d \<Rightarrow> Some (c_device d) | Inr m \<Rightarrow> None),
                       bfhb_memory = (case dm of Inl d \<Rightarrow> None | Inr m \<Rightarrow> Some (c_memory m))\<rparr>,
                    Call_Event_OnReady ev (CallsOnDone cb)] \<and>
              b = new_PjRtCApiBuffer cl (c_buffer b)"
  using assms
  by (auto simp: BufferFromHostBufferInternalImpl_def Let_def new_PjRtCApiBuffer_def
      split: sum.splits option.splits prod.splits)

lemma CopyToDevice_same_client:
  assumes "client_addr (device_client dst) = client_addr (buffer_client this)"
  shows "CopyToDevice h mem this dst =
     (map_sum Error (new_PjRtCApiBuffer (buffer_client this))
        (PJRT_Buffer_CopyToDevice (c_api (buffer_client this)) (c_buffer this) (c_device dst)),
      [Call_Buffer_CopyToDevice (c_buffer this) (c_device dst)])"
  using assms by (simp add: CopyToDevice_def split: sum.split)

lemma CopyToMemorySpace_same_client:
  assumes "client_addr (memory_client dst) = client_addr (buffer_client this)"
    and "\<not> minor_version (c_api (buffer_client this)) < 32"
  shows "CopyToMemorySpace h mem this dst =
     (map_sum Error (new_PjRtCApiBuffer (buffer_client this))
        (PJRT_Buffer_CopyToMemory (c_api (buffer_client this)) (c_buffer this) (c_memory dst)),
      [Call_Buffer_CopyToMemory (c_buffer this) (c_memory dst)])"
  using assms by (simp add: CopyToMemorySpace_def split: sum.split)

text \<open>
  The device memory after an ingestion that the plugin accepted: the new buffer holds the
  host data of the ingestion.
\<close>

lemma plugin_memory_after_ingestion:
  assumes "PJRT_Client_BufferFromHostBuffer api args = Inr (buf, ev)"
  shows "untyped_data
           (plugin_memory_after api c
              [Call_ToLiteralSync src, Call_Client_BufferFromHostBuffer args,
               Call_Event_OnReady ev closure] mem c buf) = bfhb_data args"
  using assms by (simp add: plugin_memory_after_def plugin_stores_def)

lemma ToLiteralSync_new_buffer:
  assumes "ToLiteralSync h mem (new_PjRtCApiBuffer cl buf) = Inr lit"
  shows "lit = mem (c_client cl) buf"
  using assms by (simp add: ToLiteralSync_def new_PjRtCApiBuffer_def split: option.splits)

lemma CopyToDevice_other_client:
  assumes "client_addr (device_client dst) \<noteq> client_addr (buffer_client this)"
    and "CopyToDevice h mem this dst = (Inr b, cs)"
  shows "\<exists>literal strides ev.
           ToLiteralSync h mem this = Inr literal \<and>
           ByteStrides h (shape literal) = Inr strides \<and>
           PJRT_Client_BufferFromHostBuffer (c_api (device_client dst))
             \<lparr>bfhb_client = c_client (device_client dst),
              bfhb_data = untyped_data literal,
              bfhb_type = element_type (shape literal), bfhb_dims = dimensions (shape literal),
              bfhb_byte_strides = Some strides, bfhb_device_layout = None,
              bfhb_host_buffer_semantics = kZeroCopy,
              bfhb_device = Some (c_device dst), bfhb_memory = None\<rparr>
             = Inr (c_buffer b, ev) \<and>
           cs = [Call_ToLiteralSync (c_buffer this),
                 Call_Client_BufferFromHostBuffer
                   \<lparr>bfhb_client = c_client (device_client dst),
                    bfhb_data = untyped_data literal,
                    bfhb_type = element_type (shape literal), bfhb_dims = dimensions (shape literal),
                    bfhb_byte_strides = Some strides, bfhb_device_layout = None,
                    bfhb_host_buffer_semantics = kZeroCopy,
                    bfhb_device = Some (c_device dst), bfhb_memory = None\<rparr>,
                 Call_Event_OnReady ev (CallsOnDone (FreesLiteral literal))] \<and>
           b = new_PjRtCApiBuffer (device_client dst) (c_buffer b) \<and>
           untyped_data
             (plugin_memory_after (c_api (device_client dst))
                (c_client (device_client dst)) cs mem
                (c_client (device_client dst)) (c_buffer b)) = untyped_data literal \<and>
           (\<forall>lit. ToLiteralSync h
                    (plugin_memory_after (c_api (device_client dst))
                       (c_client (device_client dst)) cs mem) b = Inr lit \<longrightarrow>
                  untyped_data lit = untyped_data literal)"
proof -
  from assms obtain literal strides cs' where
    l: "ToLiteralSync h mem this = Inr literal" and s: "ByteStrides h (shape literal) = Inr strides"
    and i: "BufferFromHostBufferInternalImpl h (device_client dst) (untyped_data literal)
              (element_type (shape literal)) (dimensions (shape literal)) (Some strides)
              kZeroCopy (Some (FreesLiteral literal)) (Inl dst) None = (Inr b, cs')"
    and cs: "cs = Call_ToLiteralSync (c_buffer this) # cs'"
    by (auto simp: CopyToDevice_def BufferFromHostBuffer_device_def
        split: sum.splits prod.splits)
  let ?args = "\<lparr>bfhb_client = c_client (device_client dst),
               bfhb_data = untyped_data literal,
               bfhb_type = element_type (shape literal), bfhb_dims = dimensions (shape literal),
               bfhb_byte_strides = Some strides, bfhb_device_layout = None,
               bfhb_host_buffer_semantics = kZeroCopy,
               bfhb_device = Some (c_device dst), bfhb_memory = None\<rparr>"
  from BufferFromHostBufferInternalImpl_zero_copy [OF i] obtain ev where
    p: "PJRT_Client_BufferFromHostBuffer (c_api (device_client dst)) ?args = Inr (c_buffer b, ev)"
    and cs': "cs' = [Call_Client_BufferFromHostBuffer ?args,
                     Call_Event_OnReady ev (CallsOnDone (FreesLiteral literal))]"
    and b: "b = new_PjRtCApiBuffer (device_client dst) (c_buffer b)"
    by auto
  from cs cs' have cs_all: "cs = [Call_ToLiteralSync (c_buffer this),
      Call_Client_BufferFromHostBuffer ?args,
      Call_Event_OnReady ev (CallsOnDone (FreesLiteral literal))]"
    by simp
  let ?mem = "plugin_memory_after (c_api (device_client dst)) (c_client (device_client dst)) cs mem"
  have stored: "untyped_data (?mem (c_client (device_client dst)) (c_buffer b)) = untyped_data literal"
    unfolding cs_all using plugin_memory_after_ingestion [OF p] by simp
  have read: "\<forall>lit. ToLiteralSync h ?mem b = Inr lit \<longrightarrow> untyped_data lit = untyped_data literal"
  proof (intro allI impI)
    fix lit
    assume "ToLiteralSync h ?mem b = Inr lit"
    with b have "ToLiteralSync h ?mem (new_PjRtCApiBuffer (device_client dst) (c_buffer b)) = Inr lit"
      by simp
    from ToLiteralSync_new_buffer [OF this] stored show "untyped_data lit = untyped_data literal"
      by simp
  qed
  from l s p cs_all b stored read show ?thesis
    by (intro exI [of _ literal] exI [of _ strides] exI [of _ ev] conjI)
qed

lemma CopyToMemorySpace_other_client:
  assumes "client_addr (memory_client dst) \<noteq> client_addr (buffer_client this)"
    and "\<not> minor_version (c_api (buffer_client this)) < 32"
    and "CopyToMemorySpace h mem this dst = (Inr b, cs)"
  shows "\<exists>literal strides ev.
           ToLiteralSync h mem this = Inr literal \<and>
           ByteStrides h (shape literal) = Inr strides \<and>
           PJRT_Client_BufferFromHostBuffer (c_api (memory_client dst))
             \<lparr>bfhb_client = c_client (memory_client dst),
              bfhb_data = untyped_data literal,
              bfhb_type = element_type (shape literal), bfhb_dims = dimensions (shape literal),
              bfhb_byte_strides = Some strides, bfhb_device_layout = None,
              bfhb_host_buffer_semantics = kZeroCopy,
              bfhb_device = None, bfhb_memory = Some (c_memory dst)\<rparr>
             = Inr (c_buffer b, ev) \<and>
           cs = [Call_ToLiteralSync (c_buffer this),
                 Call_Client_BufferFromHostBuffer
                   \<lparr>bfhb_client = c_client (memory_client dst),
                    bfhb_data = untyped_data literal,
                    bfhb_type = element_type (shape literal), bfhb_dims = dimensions (shape literal),
                    bfhb_byte_strides = Some strides, bfhb_device_layout = None,
                    bfhb_host_buffer_semantics = kZeroCopy,
                    bfhb_device = None, bfhb_memory = Some (c_memory dst)\<rparr>,
                 Call_Event_OnReady ev (CallsOnDone (FreesLiteral literal))] \<and>
           b = new_PjRtCApiBuffer (memory_client dst) (c_buffer b) \<and>
           untyped_data
             (plugin_memory_after (c_api (memory_client dst))
                (c_client (memory_client dst)) cs mem
                (c_client (memory_client dst)) (c_buffer b)) = untyped_data literal \<and>
           (\<forall>lit. ToLiteralSync h
                    (plugin_memory_after (c_api (memory_client dst))
                       (c_client (memory_client dst)) cs mem) b = Inr lit \<longrightarrow>
                  untyped_data lit = untyped_data literal)"
proof -
  from assms obtain literal strides cs' where
    l: "ToLiteralSync h mem this = Inr literal" and s: "ByteStrides h (shape literal) = Inr strides"
    and i: "BufferFromHostBufferInternalImpl h (memory_client dst) (untyped_data literal)
              (element_type (shape literal)) (dimensions (shape literal)) (Some strides)
              kZeroCopy (Some (FreesLiteral literal)) (Inr dst) None = (Inr b, cs')"
    and cs: "cs = Call_ToLiteralSync (c_buffer this) # cs'"
    by (auto simp: CopyToMemorySpace_def BufferFromHostBuffer_memory_def
        split: sum.splits prod.splits)
  let ?args = "\<lparr>bfhb_client = c_client (memory_client dst),
               bfhb_data = untyped_data literal,
               bfhb_type = element_type (shape literal), bfhb_dims = dimensions (shape literal),
               bfhb_byte_strides = Some strides, bfhb_device_layout = None,
               bfhb_host_buffer_semantics = kZeroCopy,
               bfhb_device = None, bfhb_memory = Some (c_memory dst)\<rparr>"
  from BufferFromHostBufferInternalImpl_zero_copy [OF i] obtain ev where
    p: "PJRT_Client_BufferFromHostBuffer (c_api (memory_client dst)) ?args = Inr (c_buffer b, ev)"
    and cs': "cs' = [Call_Client_BufferFromHostBuffer ?args,
                     Call_Event_OnReady ev (CallsOnDone (FreesLiteral literal))]"
    and b: "b = new_PjRtCApiBuffer (memory_client dst) (c_buffer b)"
    by auto
  from cs cs' have cs_all: "cs = [Call_ToLiteralSync (c_buffer this),
      Call_Client_BufferFromHostBuffer ?args,
      Call_Event_OnReady ev (CallsOnDone (FreesLiteral literal))]"
    by simp
  let ?mem = "plugin_memory_after (c_api (memory_client dst)) (c_client (memory_client dst)) cs mem"
  have stored: "untyped_data (?mem (c_client (memory_client dst)) (c_buffer b)) = untyped_data literal"
    unfolding cs_all using plugin_memory_after_ingestion [OF p] by simp
  have read: "\<forall>lit. ToLiteralSync h ?mem b = Inr lit \<longrightarrow> untyped_data lit = untyped_data literal"
  proof (intro allI impI)
    fix lit
    assume "ToLiteralSync h ?mem b = Inr lit"
    with b have "ToLiteralSync h ?mem (new_PjRtCApiBuffer (memory_client dst) (c_buffer b)) = Inr lit"
      by simp
    from ToLiteralSync_new_buffer [OF this] stored show "untyped_data lit = untyped_data literal"
      by simp
  qed
  from l s p cs_all b stored read show ?thesis
    by (intro exI [of _ literal] exI [of _ strides] exI [of _ ev] conjI)
qed

lemma BufferFromHostBufferInternalImpl_calls:
  "\<forall>c \<in> set (snd (BufferFromHostBufferInternalImpl h cl data ty dims strides sem cb dm lay)).
     (\<exists>a. c = Call_Client_BufferFromHostBuffer a) \<or> (\<exists>e k. c = Call_Event_OnReady e k)"
  by (auto simp: BufferFromHostBufferInternalImpl_def Let_def
      split: sum.splits option.splits prod.splits)

lemma CopyToDevice_other_client_calls:
  assumes "client_addr (device_client dst) \<noteq> client_addr (buffer_client this)"
  shows "\<exists>rest. snd (CopyToDevice h mem this dst) = Call_ToLiteralSync (c_buffer this) # rest \<and>
           (\<forall>b d. Call_Buffer_CopyToDevice b d \<notin> set rest)"
proof (cases "ToLiteralSync h mem this")
  case (Inl e)
  with assms show ?thesis by (simp add: CopyToDevice_def)
next
  case l: (Inr literal)
  show ?thesis
  proof (cases "ByteStrides h (shape literal)")
    case (Inl e)
    with assms l show ?thesis by (simp add: CopyToDevice_def)
  next
    case (Inr strides)
    let ?I = "BufferFromHostBufferInternalImpl h (device_client dst) (untyped_data literal)
                (element_type (shape literal)) (dimensions (shape literal)) (Some strides)
                kZeroCopy (Some (FreesLiteral literal)) (Inl dst) None"
    from assms l Inr
    have "snd (CopyToDevice h mem this dst) = Call_ToLiteralSync (c_buffer this) # snd ?I"
      by (simp add: CopyToDevice_def BufferFromHostBuffer_device_def split: prod.split)
    moreover have "\<forall>b d. Call_Buffer_CopyToDevice b d \<notin> set (snd ?I)"
      using BufferFromHostBufferInternalImpl_calls [of h "device_client dst" "untyped_data literal"
          "element_type (shape literal)" "dimensions (shape literal)" "Some strides" kZeroCopy
          "Some (FreesLiteral literal)" "Inl dst" None]
      by auto
    ultimately show ?thesis by blast
  qed
qed

lemma CopyToMemorySpace_other_client_calls:
  assumes "client_addr (memory_client dst) \<noteq> client_addr (buffer_client this)"
    and "\<not> minor_version (c_api (buffer_client this)) < 32"
  shows "\<exists>rest. snd (CopyToMemorySpace h mem this dst) = Call_ToLiteralSync (c_buffer this) # rest \<and>
           (\<forall>b m. Call_Buffer_CopyToMemory b m \<notin> set rest)"
proof (cases "ToLiteralSync h mem this")
  case (Inl e)
  with assms show ?thesis by (simp add: CopyToMemorySpace_def)
next
  case l: (Inr literal)
  show ?thesis
  proof (cases "ByteStrides h (shape literal)")
    case (Inl e)
    with assms l show ?thesis by (simp add: CopyToMemorySpace_def)
  next
    case (Inr strides)
    let ?I = "BufferFromHostBufferInternalImpl h (memory_client dst) (untyped_data literal)
                (element_type (shape literal)) (dimensions (shape literal)) (Some strides)
                kZeroCopy (Some (FreesLiteral literal)) (Inr dst) None"
    from assms l Inr
    have "snd (CopyToMemorySpace h mem this dst) = Call_ToLiteralSync (c_buffer this) # snd ?I"
      by (simp add: CopyToMemorySpace_def BufferFromHostBuffer_memory_def split: prod.split)
    moreover have "\<forall>b m. Call_Buffer_CopyToMemory b m \<notin> set (snd ?I)"
      using BufferFromHostBufferInternalImpl_calls [of h "memory_client dst" "untyped_data literal"
          "element_type (shape literal)" "dimensions (shape literal)" "Some strides" kZeroCopy
          "Some (FreesLiteral literal)" "Inr dst" None]
      by auto
    ultimately show ?thesis by blast
  qed
qed

text \<open>
  C1, as the code has it. \<^verbatim>\<open>CopyToDevice\<close>, and \<^verbatim>\<open>CopyToMemorySpace\<close> against a plugin of
  ABI minor version 32 or more, to a destination of the source buffer's own client is one
  direct copy call of the plugin. When the clients differ, the call starts with the host
  materialization of the source and makes no direct copy call. When the clients differ and
  the copy succeeds, the source was materialized to a host literal, and the literal's
  bytes, element type and dimensions were handed to the ingestion entry point of the
  destination client's plugin with zero-copy semantics; a callback holding the literal was
  registered on the event of the ingestion; the resulting buffer is owned by the
  destination client; and in the device memory after the call the new buffer holds the
  bytes of the literal, so that its host materialization is byte-identical to the source's.
\<close>

theorem copy_to_device_or_memory:
  "(client_addr (device_client dst_device) = client_addr (buffer_client this) \<longrightarrow>
      CopyToDevice h mem this dst_device =
        (map_sum Error (new_PjRtCApiBuffer (buffer_client this))
           (PJRT_Buffer_CopyToDevice (c_api (buffer_client this)) (c_buffer this)
              (c_device dst_device)),
         [Call_Buffer_CopyToDevice (c_buffer this) (c_device dst_device)])) \<and>
   (32 \<le> minor_version (c_api (buffer_client this)) \<and>
    client_addr (memory_client dst_memory) = client_addr (buffer_client this) \<longrightarrow>
      CopyToMemorySpace h mem this dst_memory =
        (map_sum Error (new_PjRtCApiBuffer (buffer_client this))
           (PJRT_Buffer_CopyToMemory (c_api (buffer_client this)) (c_buffer this)
              (c_memory dst_memory)),
         [Call_Buffer_CopyToMemory (c_buffer this) (c_memory dst_memory)])) \<and>
   (client_addr (device_client dst_device) \<noteq> client_addr (buffer_client this) \<and>
    CopyToDevice h mem this dst_device = (Inr b, cs) \<longrightarrow>
      (\<exists>literal strides ev.
         ToLiteralSync h mem this = Inr literal \<and>
         ByteStrides h (shape literal) = Inr strides \<and>
         PJRT_Client_BufferFromHostBuffer (c_api (device_client dst_device))
           \<lparr>bfhb_client = c_client (device_client dst_device),
            bfhb_data = untyped_data literal,
            bfhb_type = element_type (shape literal), bfhb_dims = dimensions (shape literal),
            bfhb_byte_strides = Some strides, bfhb_device_layout = None,
            bfhb_host_buffer_semantics = kZeroCopy,
            bfhb_device = Some (c_device dst_device), bfhb_memory = None\<rparr>
           = Inr (c_buffer b, ev) \<and>
         cs = [Call_ToLiteralSync (c_buffer this),
               Call_Client_BufferFromHostBuffer
                 \<lparr>bfhb_client = c_client (device_client dst_device),
                  bfhb_data = untyped_data literal,
                  bfhb_type = element_type (shape literal), bfhb_dims = dimensions (shape literal),
                  bfhb_byte_strides = Some strides, bfhb_device_layout = None,
                  bfhb_host_buffer_semantics = kZeroCopy,
                  bfhb_device = Some (c_device dst_device), bfhb_memory = None\<rparr>,
               Call_Event_OnReady ev (CallsOnDone (FreesLiteral literal))] \<and>
         b = new_PjRtCApiBuffer (device_client dst_device) (c_buffer b) \<and>
         untyped_data
           (plugin_memory_after (c_api (device_client dst_device))
              (c_client (device_client dst_device)) cs mem
              (c_client (device_client dst_device)) (c_buffer b)) = untyped_data literal \<and>
         (\<forall>lit. ToLiteralSync h
                  (plugin_memory_after (c_api (device_client dst_device))
                     (c_client (device_client dst_device)) cs mem) b = Inr lit \<longrightarrow>
                untyped_data lit = untyped_data literal))) \<and>
   (32 \<le> minor_version (c_api (buffer_client this)) \<and>
    client_addr (memory_client dst_memory) \<noteq> client_addr (buffer_client this) \<and>
    CopyToMemorySpace h mem this dst_memory = (Inr b, cs) \<longrightarrow>
      (\<exists>literal strides ev.
         ToLiteralSync h mem this = Inr literal \<and>
         ByteStrides h (shape literal) = Inr strides \<and>
         PJRT_Client_BufferFromHostBuffer (c_api (memory_client dst_memory))
           \<lparr>bfhb_client = c_client (memory_client dst_memory),
            bfhb_data = untyped_data literal,
            bfhb_type = element_type (shape literal), bfhb_dims = dimensions (shape literal),
            bfhb_byte_strides = Some strides, bfhb_device_layout = None,
            bfhb_host_buffer_semantics = kZeroCopy,
            bfhb_device = None, bfhb_memory = Some (c_memory dst_memory)\<rparr>
           = Inr (c_buffer b, ev) \<and>
         cs = [Call_ToLiteralSync (c_buffer this),
               Call_Client_BufferFromHostBuffer
                 \<lparr>bfhb_client = c_client (memory_client dst_memory),
                  bfhb_data = untyped_data literal,
                  bfhb_type = element_type (shape literal), bfhb_dims = dimensions (shape literal),
                  bfhb_byte_strides = Some strides, bfhb_device_layout = None,
                  bfhb_host_buffer_semantics = kZeroCopy,
                  bfhb_device = None, bfhb_memory = Some (c_memory dst_memory)\<rparr>,
               Call_Event_OnReady ev (CallsOnDone (FreesLiteral literal))] \<and>
         b = new_PjRtCApiBuffer (memory_client dst_memory) (c_buffer b) \<and>
         untyped_data
           (plugin_memory_after (c_api (memory_client dst_memory))
              (c_client (memory_client dst_memory)) cs mem
              (c_client (memory_client dst_memory)) (c_buffer b)) = untyped_data literal \<and>
         (\<forall>lit. ToLiteralSync h
                  (plugin_memory_after (c_api (memory_client dst_memory))
                     (c_client (memory_client dst_memory)) cs mem) b = Inr lit \<longrightarrow>
                untyped_data lit = untyped_data literal))) \<and>
   (client_addr (device_client dst_device) \<noteq> client_addr (buffer_client this) \<longrightarrow>
      (\<exists>rest. snd (CopyToDevice h mem this dst_device) =
               Call_ToLiteralSync (c_buffer this) # rest \<and>
             (\<forall>x d. Call_Buffer_CopyToDevice x d \<notin> set rest))) \<and>
   (32 \<le> minor_version (c_api (buffer_client this)) \<and>
    client_addr (memory_client dst_memory) \<noteq> client_addr (buffer_client this) \<longrightarrow>
      (\<exists>rest. snd (CopyToMemorySpace h mem this dst_memory) =
               Call_ToLiteralSync (c_buffer this) # rest \<and>
             (\<forall>x m. Call_Buffer_CopyToMemory x m \<notin> set rest)))"
proof (intro conjI impI)
  assume "client_addr (device_client dst_device) = client_addr (buffer_client this)"
  then show "CopyToDevice h mem this dst_device =
        (map_sum Error (new_PjRtCApiBuffer (buffer_client this))
           (PJRT_Buffer_CopyToDevice (c_api (buffer_client this)) (c_buffer this)
              (c_device dst_device)),
         [Call_Buffer_CopyToDevice (c_buffer this) (c_device dst_device)])"
    by (rule CopyToDevice_same_client)
next
  assume "32 \<le> minor_version (c_api (buffer_client this)) \<and>
    client_addr (memory_client dst_memory) = client_addr (buffer_client this)"
  then show "CopyToMemorySpace h mem this dst_memory =
        (map_sum Error (new_PjRtCApiBuffer (buffer_client this))
           (PJRT_Buffer_CopyToMemory (c_api (buffer_client this)) (c_buffer this)
              (c_memory dst_memory)),
         [Call_Buffer_CopyToMemory (c_buffer this) (c_memory dst_memory)])"
    by (intro CopyToMemorySpace_same_client) simp_all
next
  assume "client_addr (device_client dst_device) \<noteq> client_addr (buffer_client this) \<and>
    CopyToDevice h mem this dst_device = (Inr b, cs)"
  then have "client_addr (device_client dst_device) \<noteq> client_addr (buffer_client this)"
    and "CopyToDevice h mem this dst_device = (Inr b, cs)"
    by simp_all
  then show "\<exists>literal strides ev.
         ToLiteralSync h mem this = Inr literal \<and>
         ByteStrides h (shape literal) = Inr strides \<and>
         PJRT_Client_BufferFromHostBuffer (c_api (device_client dst_device))
           \<lparr>bfhb_client = c_client (device_client dst_device),
            bfhb_data = untyped_data literal,
            bfhb_type = element_type (shape literal), bfhb_dims = dimensions (shape literal),
            bfhb_byte_strides = Some strides, bfhb_device_layout = None,
            bfhb_host_buffer_semantics = kZeroCopy,
            bfhb_device = Some (c_device dst_device), bfhb_memory = None\<rparr>
           = Inr (c_buffer b, ev) \<and>
         cs = [Call_ToLiteralSync (c_buffer this),
               Call_Client_BufferFromHostBuffer
                 \<lparr>bfhb_client = c_client (device_client dst_device),
                  bfhb_data = untyped_data literal,
                  bfhb_type = element_type (shape literal), bfhb_dims = dimensions (shape literal),
                  bfhb_byte_strides = Some strides, bfhb_device_layout = None,
                  bfhb_host_buffer_semantics = kZeroCopy,
                  bfhb_device = Some (c_device dst_device), bfhb_memory = None\<rparr>,
               Call_Event_OnReady ev (CallsOnDone (FreesLiteral literal))] \<and>
         b = new_PjRtCApiBuffer (device_client dst_device) (c_buffer b) \<and>
         untyped_data
           (plugin_memory_after (c_api (device_client dst_device))
              (c_client (device_client dst_device)) cs mem
              (c_client (device_client dst_device)) (c_buffer b)) = untyped_data literal \<and>
         (\<forall>lit. ToLiteralSync h
                  (plugin_memory_after (c_api (device_client dst_device))
                     (c_client (device_client dst_device)) cs mem) b = Inr lit \<longrightarrow>
                untyped_data lit = untyped_data literal)"
    by (rule CopyToDevice_other_client)
next
  assume "32 \<le> minor_version (c_api (buffer_client this)) \<and>
    client_addr (memory_client dst_memory) \<noteq> client_addr (buffer_client this) \<and>
    CopyToMemorySpace h mem this dst_memory = (Inr b, cs)"
  then have "client_addr (memory_client dst_memory) \<noteq> client_addr (buffer_client this)"
    and "\<not> minor_version (c_api (buffer_client this)) < 32"
    and "CopyToMemorySpace h mem this dst_memory = (Inr b, cs)"
    by simp_all
  then show "\<exists>literal strides ev.
         ToLiteralSync h mem this = Inr literal \<and>
         ByteStrides h (shape literal) = Inr strides \<and>
         PJRT_Client_BufferFromHostBuffer (c_api (memory_client dst_memory))
           \<lparr>bfhb_client = c_client (memory_client dst_memory),
            bfhb_data = untyped_data literal,
            bfhb_type = element_type (shape literal), bfhb_dims = dimensions (shape literal),
            bfhb_byte_strides = Some strides, bfhb_device_layout = None,
            bfhb_host_buffer_semantics = kZeroCopy,
            bfhb_device = None, bfhb_memory = Some (c_memory dst_memory)\<rparr>
           = Inr (c_buffer b, ev) \<and>
         cs = [Call_ToLiteralSync (c_buffer this),
               Call_Client_BufferFromHostBuffer
                 \<lparr>bfhb_client = c_client (memory_client dst_memory),
                  bfhb_data = untyped_data literal,
                  bfhb_type = element_type (shape literal), bfhb_dims = dimensions (shape literal),
                  bfhb_byte_strides = Some strides, bfhb_device_layout = None,
                  bfhb_host_buffer_semantics = kZeroCopy,
                  bfhb_device = None, bfhb_memory = Some (c_memory dst_memory)\<rparr>,
               Call_Event_OnReady ev (CallsOnDone (FreesLiteral literal))] \<and>
         b = new_PjRtCApiBuffer (memory_client dst_memory) (c_buffer b) \<and>
         untyped_data
           (plugin_memory_after (c_api (memory_client dst_memory))
              (c_client (memory_client dst_memory)) cs mem
              (c_client (memory_client dst_memory)) (c_buffer b)) = untyped_data literal \<and>
         (\<forall>lit. ToLiteralSync h
                  (plugin_memory_after (c_api (memory_client dst_memory))
                     (c_client (memory_client dst_memory)) cs mem) b = Inr lit \<longrightarrow>
                untyped_data lit = untyped_data literal)"
    by (rule CopyToMemorySpace_other_client)
next
  assume "client_addr (device_client dst_device) \<noteq> client_addr (buffer_client this)"
  then show "\<exists>rest. snd (CopyToDevice h mem this dst_device) =
                 Call_ToLiteralSync (c_buffer this) # rest \<and>
             (\<forall>x d. Call_Buffer_CopyToDevice x d \<notin> set rest)"
    by (rule CopyToDevice_other_client_calls)
next
  assume "32 \<le> minor_version (c_api (buffer_client this)) \<and>
    client_addr (memory_client dst_memory) \<noteq> client_addr (buffer_client this)"
  then show "\<exists>rest. snd (CopyToMemorySpace h mem this dst_memory) =
               Call_ToLiteralSync (c_buffer this) # rest \<and>
             (\<forall>x m. Call_Buffer_CopyToMemory x m \<notin> set rest)"
    by (intro CopyToMemorySpace_other_client_calls) simp_all
qed

text \<open>
  The buffer 7 of the client 1 holds the bytes 7, 8, 9. Copied to a device of the client
  2, whose buffer 100 holds no data before the call, it becomes the buffer 100 of the
  client 2, which holds 7, 8, 9 after the call. Copied within the client 1, it is the
  plugin's copy.
\<close>

theorem copy_to_device_or_memory_witness:
  "client_addr (device_client (demo_device (demo_client 2 40 ''gpu''))) \<noteq>
     client_addr (buffer_client (new_PjRtCApiBuffer (demo_client 1 40 ''tpu'') 7)) \<and>
   (\<exists>b cs. CopyToDevice demo_helpers demo_device_memory
              (new_PjRtCApiBuffer (demo_client 1 40 ''tpu'') 7)
              (demo_device (demo_client 2 40 ''gpu'')) = (Inr b, cs) \<and>
            client_addr (buffer_client b) = 2 \<and> c_buffer b = 100 \<and>
            length cs = 3 \<and>
            untyped_data (demo_device_memory 2 100) = [] \<and>
            map_sum id untyped_data
              (ToLiteralSync demo_helpers demo_device_memory
                 (new_PjRtCApiBuffer (demo_client 1 40 ''tpu'') 7)) = Inr [7, 8, 9] \<and>
            map_sum id untyped_data
              (ToLiteralSync demo_helpers
                 (plugin_memory_after (demo_api 40) 2 cs demo_device_memory) b)
              = Inr [7, 8, 9]) \<and>
   CopyToDevice demo_helpers demo_device_memory (new_PjRtCApiBuffer (demo_client 1 40 ''tpu'') 7)
     (demo_device (demo_client 1 40 ''tpu'')) =
     (Inr (new_PjRtCApiBuffer (demo_client 1 40 ''tpu'') 507), [Call_Buffer_CopyToDevice 7 10]) \<and>
   CopyToMemorySpace demo_helpers demo_device_memory
     (new_PjRtCApiBuffer (demo_client 1 40 ''tpu'') 7)
     (demo_memory (demo_client 1 40 ''tpu'')) =
     (Inr (new_PjRtCApiBuffer (demo_client 1 40 ''tpu'') 557), [Call_Buffer_CopyToMemory 7 20])"
proof -
  let ?src = "new_PjRtCApiBuffer (demo_client 1 40 ''tpu'') 7"
  let ?dst = "demo_device (demo_client 2 40 ''gpu'')"
  let ?C = "CopyToDevice demo_helpers demo_device_memory ?src ?dst"
  have diff: "client_addr (device_client ?dst) \<noteq> client_addr (buffer_client ?src)"
    by (simp add: demo_device_def demo_client_def new_PjRtCApiBuffer_def)
  have "\<not> isl (fst ?C)"
    by (simp add: CopyToDevice_def ToLiteralSync_def BufferFromHostBuffer_device_def
        BufferFromHostBufferInternalImpl_def demo_device_def demo_client_def demo_api_def
        demo_helpers_def new_PjRtCApiBuffer_def Let_def)
  then obtain b where "fst ?C = Inr b"
    by (cases "fst ?C") auto
  then have c: "?C = (Inr b, snd ?C)"
    by (simp add: prod_eq_iff)
  have src_lit: "ToLiteralSync demo_helpers demo_device_memory ?src =
                   Inr \<lparr>shape = \<lparr>element_type = 5, dimensions = [3], layout = None\<rparr>,
                        untyped_data = [7, 8, 9]\<rparr>"
    by (simp add: ToLiteralSync_def demo_helpers_def demo_device_memory_def
        new_PjRtCApiBuffer_def demo_client_def)
  have ids: "c_api (device_client ?dst) = demo_api 40" "c_client (device_client ?dst) = 2"
    by (simp_all add: demo_device_def demo_client_def)
  note part = copy_to_device_or_memory [of ?dst ?src demo_helpers demo_device_memory
      "demo_memory (demo_client 1 40 ''tpu'')" b "snd ?C",
      THEN conjunct2, THEN conjunct2, THEN conjunct1, THEN mp,
      OF conjI [OF diff c]]
  then obtain literal strides ev where
    lit: "ToLiteralSync demo_helpers demo_device_memory ?src = Inr literal"
    and plugin: "PJRT_Client_BufferFromHostBuffer (c_api (device_client ?dst))
                 \<lparr>bfhb_client = c_client (device_client ?dst),
                  bfhb_data = untyped_data literal,
                  bfhb_type = element_type (shape literal),
                  bfhb_dims = dimensions (shape literal),
                  bfhb_byte_strides = Some strides, bfhb_device_layout = None,
                  bfhb_host_buffer_semantics = kZeroCopy,
                  bfhb_device = Some (c_device ?dst), bfhb_memory = None\<rparr> = Inr (c_buffer b, ev)"
    and cs: "snd ?C = [Call_ToLiteralSync (c_buffer ?src),
               Call_Client_BufferFromHostBuffer
                 \<lparr>bfhb_client = c_client (device_client ?dst),
                  bfhb_data = untyped_data literal,
                  bfhb_type = element_type (shape literal),
                  bfhb_dims = dimensions (shape literal),
                  bfhb_byte_strides = Some strides, bfhb_device_layout = None,
                  bfhb_host_buffer_semantics = kZeroCopy,
                  bfhb_device = Some (c_device ?dst), bfhb_memory = None\<rparr>,
               Call_Event_OnReady ev (CallsOnDone (FreesLiteral literal))]"
    and owner: "b = new_PjRtCApiBuffer (device_client ?dst) (c_buffer b)"
    and read: "\<forall>lit. ToLiteralSync demo_helpers
                 (plugin_memory_after (c_api (device_client ?dst)) (c_client (device_client ?dst))
                    (snd ?C) demo_device_memory) b = Inr lit \<longrightarrow>
               untyped_data lit = untyped_data literal"
    by blast
  from cs have len: "length (snd ?C) = 3"
    by simp
  from lit src_lit have literal: "untyped_data literal = [7, 8, 9]"
    by auto
  from plugin have handle: "c_buffer b = 100"
    by (simp add: demo_device_def demo_client_def demo_api_def)
  from owner have addr: "client_addr (buffer_client b) = 2"
    by (metis (no_types) PjRtCApiBuffer.select_convs(1) PjRtCApiClient.select_convs(1)
        PjRtCApiDevice.select_convs(1) demo_client_def demo_device_def new_PjRtCApiBuffer_def)
  have before: "untyped_data (demo_device_memory 2 100) = []"
    by (simp add: demo_device_memory_def)
  from src_lit have src_bytes:
    "map_sum id untyped_data (ToLiteralSync demo_helpers demo_device_memory ?src) = Inr [7, 8, 9]"
    by simp
  let ?mem = "plugin_memory_after (demo_api 40) 2 (snd ?C) demo_device_memory"
  have mat: "ToLiteralSync demo_helpers ?mem b = Inr (?mem (c_client (buffer_client b)) (c_buffer b))"
    by (simp add: ToLiteralSync_def demo_helpers_def)
  from read [unfolded ids] mat literal
  have dst_bytes: "map_sum id untyped_data (ToLiteralSync demo_helpers ?mem b) = Inr [7, 8, 9]"
    by simp
  from c addr handle len before src_bytes dst_bytes
  have p2: "\<exists>b cs. ?C = (Inr b, cs) \<and> client_addr (buffer_client b) = 2 \<and> c_buffer b = 100 \<and>
      length cs = 3 \<and> untyped_data (demo_device_memory 2 100) = [] \<and>
      map_sum id untyped_data (ToLiteralSync demo_helpers demo_device_memory ?src)
        = Inr [7, 8, 9] \<and>
      map_sum id untyped_data
        (ToLiteralSync demo_helpers
           (plugin_memory_after (demo_api 40) 2 cs demo_device_memory) b) = Inr [7, 8, 9]"
    by (intro exI [of _ b] exI [of _ "snd ?C"] conjI)
  have same_addr: "client_addr (device_client (demo_device (demo_client 1 40 ''tpu''))) =
      client_addr (buffer_client ?src)"
    "client_addr (memory_client (demo_memory (demo_client 1 40 ''tpu''))) =
      client_addr (buffer_client ?src)"
    "32 \<le> minor_version (c_api (buffer_client ?src))"
    by (simp_all add: demo_device_def demo_memory_def demo_client_def new_PjRtCApiBuffer_def
        demo_api_def)
  from copy_to_device_or_memory [of "demo_device (demo_client 1 40 ''tpu'')" ?src demo_helpers
      demo_device_memory "demo_memory (demo_client 1 40 ''tpu'')"] same_addr
  have p3: "CopyToDevice demo_helpers demo_device_memory ?src
              (demo_device (demo_client 1 40 ''tpu'')) =
     (Inr (new_PjRtCApiBuffer (demo_client 1 40 ''tpu'') 507), [Call_Buffer_CopyToDevice 7 10])"
    and p4: "CopyToMemorySpace demo_helpers demo_device_memory ?src
               (demo_memory (demo_client 1 40 ''tpu'')) =
     (Inr (new_PjRtCApiBuffer (demo_client 1 40 ''tpu'') 557), [Call_Buffer_CopyToMemory 7 20])"
    by (simp_all add: demo_device_def demo_memory_def demo_client_def new_PjRtCApiBuffer_def
        demo_api_def)
  from diff p2 p3 p4 show ?thesis
    by (intro conjI)
qed

text \<open>
  Against a plugin of minor version 31, a copy to a memory space of the buffer's own client
  is not a plugin copy: it is an Unimplemented error.
\<close>

theorem copy_to_device_or_memory_counterexample:
  "client_addr (memory_client (demo_memory (demo_client 1 31 ''tpu''))) =
     client_addr (buffer_client (new_PjRtCApiBuffer (demo_client 1 31 ''tpu'') 7)) \<and>
   CopyToMemorySpace demo_helpers demo_device_memory
     (new_PjRtCApiBuffer (demo_client 1 31 ''tpu'') 7)
     (demo_memory (demo_client 1 31 ''tpu'')) =
   (Inl (Error (Status kUnimplemented
      ''The plugin has PJRT API version 0.32 which does not support CopyToMemorySpace'')), [])"
  by (simp add: CopyToMemorySpace_def Unimplemented_def new_PjRtCApiBuffer_def demo_memory_def
      demo_client_def demo_api_def)

subsection \<open>The ready future\<close>

text \<open>
  The three states of a buffer in a world of its own: resolved, pending, and not yet asked
  for its future. The plugin has completed the ready event (\<open>done\<close> holds it) or not.
\<close>

lemma resolved_stays:
  assumes "readiness_promise this = Some 0"
    and "done = [] \<or> (\<exists>e. done = [(ev, e)])"
  shows "\<exists>done'. (done' = [] \<or> (\<exists>e. done' = [(ev, e)])) \<and>
     run_ready_ops ev ops this
       \<lparr>promises = [Some st], registered = [], completed = done, calls = cs,
        promise_sets = [(0, st)]\<rparr> =
     Inr (replicate (count_list ops CallGetReadyFuture) 0, this,
          \<lparr>promises = [Some st], registered = [], completed = done', calls = cs,
           promise_sets = [(0, st)]\<rparr>)"
  using assms(2)
proof (induction ops arbitrary: "done")
  case Nil
  then show ?case by simp
next
  case (Cons op ops)
  show ?case
  proof (cases op)
    case CallGetReadyFuture
    from Cons.IH [OF Cons.prems] obtain done' where
      "done' = [] \<or> (\<exists>e. done' = [(ev, e)])"
      "run_ready_ops ev ops this
         \<lparr>promises = [Some st], registered = [], completed = done, calls = cs,
          promise_sets = [(0, st)]\<rparr> =
       Inr (replicate (count_list ops CallGetReadyFuture) 0, this,
            \<lparr>promises = [Some st], registered = [], completed = done', calls = cs,
             promise_sets = [(0, st)]\<rparr>)"
      by blast
    with CallGetReadyFuture assms(1) show ?thesis
      by (intro exI [of _ done']) (simp add: GetReadyFuture_def)
  next
    case (PluginCompletes err)
    let ?done1 = "if done = [] then [(ev, err)] else done"
    have d1: "?done1 = [] \<or> (\<exists>e. ?done1 = [(ev, e)])"
      using Cons.prems by auto
    have step: "plugin_completes_event ev err
         \<lparr>promises = [Some st], registered = [], completed = done, calls = cs,
          promise_sets = [(0, st)]\<rparr> =
       Inr \<lparr>promises = [Some st], registered = [], completed = ?done1, calls = cs,
            promise_sets = [(0, st)]\<rparr>"
      using Cons.prems by (auto simp: plugin_completes_event_def)
    from Cons.IH [OF d1] obtain done' where
      "done' = [] \<or> (\<exists>e. done' = [(ev, e)])"
      "run_ready_ops ev ops this
         \<lparr>promises = [Some st], registered = [], completed = ?done1, calls = cs,
          promise_sets = [(0, st)]\<rparr> =
       Inr (replicate (count_list ops CallGetReadyFuture) 0, this,
            \<lparr>promises = [Some st], registered = [], completed = done', calls = cs,
             promise_sets = [(0, st)]\<rparr>)"
      by blast
    with PluginCompletes step show ?thesis
      by (intro exI [of _ done']) simp
  qed
qed

lemma pending_resolves:
  assumes "readiness_promise this = Some 0"
  shows "\<exists>w. run_ready_ops ev ops this
       \<lparr>promises = [None], registered = [(ev, SetsPromise 0)], completed = [], calls = cs,
        promise_sets = []\<rparr> =
     Inr (replicate (count_list ops CallGetReadyFuture) 0, this, w) \<and>
     promises w = [completion_of ops] \<and> calls w = cs \<and>
     promise_sets w = (case completion_of ops of None \<Rightarrow> [] | Some st \<Rightarrow> [(0, st)])"
proof (induction ops)
  case Nil
  then show ?case by simp
next
  case (Cons op ops)
  show ?case
  proof (cases op)
    case CallGetReadyFuture
    with Cons.IH assms show ?thesis
      by (auto simp: GetReadyFuture_def)
  next
    case (PluginCompletes err)
    have step: "plugin_completes_event ev err
         \<lparr>promises = [None], registered = [(ev, SetsPromise 0)], completed = [], calls = cs,
          promise_sets = []\<rparr> =
       Inr \<lparr>promises = [Some err], registered = [], completed = [(ev, err)], calls = cs,
            promise_sets = [(0, err)]\<rparr>"
      by (simp add: plugin_completes_event_def Promise_Set_def)
    from resolved_stays [OF assms, of "[(ev, err)]" ev ops err cs] obtain done' where
      "run_ready_ops ev ops this
         \<lparr>promises = [Some err], registered = [], completed = [(ev, err)], calls = cs,
          promise_sets = [(0, err)]\<rparr> =
       Inr (replicate (count_list ops CallGetReadyFuture) 0, this,
            \<lparr>promises = [Some err], registered = [], completed = done', calls = cs,
             promise_sets = [(0, err)]\<rparr>)"
      by auto
    with PluginCompletes step show ?thesis
      by simp
  qed
qed


lemma first_GetReadyFuture:
  assumes fresh: "readiness_promise this = None" "readiness_event this = None"
    and event: "PJRT_Buffer_ReadyEvent (c_api (buffer_client this)) (c_buffer this) = Inr ev"
    and "done": "done = [] \<or> (\<exists>e. done = [(ev, e)])"
  shows "GetReadyFuture this
           \<lparr>promises = [], registered = [], completed = done, calls = [], promise_sets = []\<rparr> =
         Inr (0, this\<lparr>readiness_promise := Some 0, readiness_event := Some ev\<rparr>,
           (case (case PJRT_Event_OnReady (c_api (buffer_client this)) ev of
                    Some e \<Rightarrow> Some (Some e)
                  | None \<Rightarrow> map_option snd (List.find (\<lambda>_. True) done)) of
              None \<Rightarrow>
                \<lparr>promises = [None], registered = [(ev, SetsPromise 0)], completed = done,
                 calls = [Call_Buffer_ReadyEvent (c_buffer this),
                          Call_Event_OnReady ev (SetsPromise 0)],
                 promise_sets = []\<rparr>
            | Some st \<Rightarrow>
                \<lparr>promises = [Some st], registered = [], completed = done,
                 calls = [Call_Buffer_ReadyEvent (c_buffer this),
                          Call_Event_OnReady ev (SetsPromise 0)],
                 promise_sets = [(0, st)]\<rparr>))"
  using assms
  by (auto simp: GetReadyFuture_def MakePromiseTrackEvent_def GetReadyEvent_def
      plugin_Event_OnReady_def Promise_Set_def Let_def split: option.split)

lemma unrequested_run:
  assumes fresh: "readiness_promise this = None" "readiness_event this = None"
    and event: "PJRT_Buffer_ReadyEvent (c_api (buffer_client this)) (c_buffer this) = Inr ev"
    and "done": "done = [] \<or> (\<exists>e. done = [(ev, e)])"
  shows "\<exists>this' w.
     run_ready_ops ev ops this
       \<lparr>promises = [], registered = [], completed = done, calls = [], promise_sets = []\<rparr> =
     Inr (replicate (count_list ops CallGetReadyFuture) 0, this', w) \<and>
     (CallGetReadyFuture \<in> set ops \<longrightarrow>
        readiness_promise this' = Some 0 \<and>
        promises w =
          [case PJRT_Event_OnReady (c_api (buffer_client this)) ev of
             Some e \<Rightarrow> Some (Some e)
           | None \<Rightarrow> (case done of [] \<Rightarrow> completion_of ops | (_, e0) # _ \<Rightarrow> Some e0)] \<and>
        calls w = [Call_Buffer_ReadyEvent (c_buffer this), Call_Event_OnReady ev (SetsPromise 0)] \<and>
        promise_sets w = (case hd (promises w) of None \<Rightarrow> [] | Some st \<Rightarrow> [(0, st)]))"
  using "done"
proof (induction ops arbitrary: "done")
  case Nil
  then show ?case by simp
next
  case (Cons op ops)
  show ?case
  proof (cases op)
    case (PluginCompletes err)
    let ?done1 = "if done = [] then [(ev, err)] else done"
    have d1: "?done1 = [] \<or> (\<exists>e. ?done1 = [(ev, e)])"
      using Cons.prems by auto
    have step: "plugin_completes_event ev err
         \<lparr>promises = [], registered = [], completed = done, calls = [], promise_sets = []\<rparr> =
       Inr \<lparr>promises = [], registered = [], completed = ?done1, calls = [], promise_sets = []\<rparr>"
      using Cons.prems by (auto simp: plugin_completes_event_def)
    have same: "(case ?done1 of [] \<Rightarrow> completion_of ops | (_, e0) # _ \<Rightarrow> Some e0) =
                (case done of [] \<Rightarrow> completion_of (op # ops) | (_, e0) # _ \<Rightarrow> Some e0)"
      using Cons.prems PluginCompletes by auto
    from Cons.IH [OF d1] obtain this' w where
      r: "run_ready_ops ev ops this
            \<lparr>promises = [], registered = [], completed = ?done1, calls = [],
             promise_sets = []\<rparr> =
          Inr (replicate (count_list ops CallGetReadyFuture) 0, this', w)"
      and c: "CallGetReadyFuture \<in> set ops \<longrightarrow>
        readiness_promise this' = Some 0 \<and>
        promises w =
          [case PJRT_Event_OnReady (c_api (buffer_client this)) ev of
             Some e \<Rightarrow> Some (Some e)
           | None \<Rightarrow> (case ?done1 of [] \<Rightarrow> completion_of ops | (_, e0) # _ \<Rightarrow> Some e0)] \<and>
        calls w = [Call_Buffer_ReadyEvent (c_buffer this), Call_Event_OnReady ev (SetsPromise 0)] \<and>
        promise_sets w = (case hd (promises w) of None \<Rightarrow> [] | Some st \<Rightarrow> [(0, st)])"
      by blast
    from r step PluginCompletes have
      "run_ready_ops ev (op # ops) this
         \<lparr>promises = [], registered = [], completed = done, calls = [], promise_sets = []\<rparr> =
       Inr (replicate (count_list (op # ops) CallGetReadyFuture) 0, this', w)"
      by simp
    moreover from c PluginCompletes have "CallGetReadyFuture \<in> set (op # ops) \<longrightarrow>
        readiness_promise this' = Some 0 \<and>
        promises w =
          [case PJRT_Event_OnReady (c_api (buffer_client this)) ev of
             Some e \<Rightarrow> Some (Some e)
           | None \<Rightarrow> (case done of [] \<Rightarrow> completion_of (op # ops) | (_, e0) # _ \<Rightarrow> Some e0)] \<and>
        calls w = [Call_Buffer_ReadyEvent (c_buffer this), Call_Event_OnReady ev (SetsPromise 0)] \<and>
        promise_sets w = (case hd (promises w) of None \<Rightarrow> [] | Some st \<Rightarrow> [(0, st)])"
      unfolding same [symmetric] by simp
    ultimately show ?thesis
      by blast
  next
    case CallGetReadyFuture
    let ?this1 = "this\<lparr>readiness_promise := Some 0, readiness_event := Some ev\<rparr>"
    let ?cs = "[Call_Buffer_ReadyEvent (c_buffer this), Call_Event_OnReady ev (SetsPromise 0)]"
    have p1: "readiness_promise ?this1 = Some 0"
      by simp
    note first = first_GetReadyFuture [OF fresh event Cons.prems]
    show ?thesis
    proof (cases "PJRT_Event_OnReady (c_api (buffer_client this)) ev")
      case (Some e)
      from resolved_stays [OF p1 Cons.prems, of ops "Some e" ?cs] obtain done' where
        "run_ready_ops ev ops ?this1
           \<lparr>promises = [Some (Some e)], registered = [], completed = done, calls = ?cs,
            promise_sets = [(0, Some e)]\<rparr> =
         Inr (replicate (count_list ops CallGetReadyFuture) 0, ?this1,
              \<lparr>promises = [Some (Some e)], registered = [], completed = done', calls = ?cs,
               promise_sets = [(0, Some e)]\<rparr>)"
        by blast
      with first Some CallGetReadyFuture show ?thesis
        by simp
    next
      case None
      show ?thesis
      proof (cases "done")
        case Nil
        from pending_resolves [OF p1, of ev ops ?cs] obtain w where
          "run_ready_ops ev ops ?this1
             \<lparr>promises = [None], registered = [(ev, SetsPromise 0)], completed = [], calls = ?cs,
              promise_sets = []\<rparr> =
           Inr (replicate (count_list ops CallGetReadyFuture) 0, ?this1, w)"
          "promises w = [completion_of ops]" "calls w = ?cs"
          "promise_sets w = (case completion_of ops of None \<Rightarrow> [] | Some st \<Rightarrow> [(0, st)])"
          by blast
        with first None Nil CallGetReadyFuture show ?thesis
          by simp
      next
        case (Cons d ds)
        with Cons.prems obtain e0 where d: "done = [(ev, e0)]"
          by auto
        from resolved_stays [OF p1 Cons.prems, of ops e0 ?cs] obtain done' where
          "run_ready_ops ev ops ?this1
             \<lparr>promises = [Some e0], registered = [], completed = done, calls = ?cs,
              promise_sets = [(0, e0)]\<rparr> =
           Inr (replicate (count_list ops CallGetReadyFuture) 0, ?this1,
                \<lparr>promises = [Some e0], registered = [], completed = done', calls = ?cs,
                 promise_sets = [(0, e0)]\<rparr>)"
          by blast
        with first None d CallGetReadyFuture show ?thesis
          by simp
      qed
    qed
  qed
qed


text \<open>
  C2. Take a buffer that has not been asked for its ready future, whose ready event the
  plugin provides, and any history of calls of \<^verbatim>\<open>GetReadyFuture\<close> interleaved with the
  plugin completing the event. Every call returns the same future, the one of the promise
  at address 0. Once there was a call, there is exactly one promise, it is the cached
  one, and the plugin was asked once for the ready event and once to register a closure
  on it, the closure that sets the promise. All holders observe the same status: the error
  of the registration if the plugin refused it, otherwise what the event completed with,
  and nothing as long as it has not completed. The promise was set once if it is
  resolved, and never otherwise.
\<close>

theorem GetReadyFuture_single_promise:
  assumes "readiness_promise this = None" and "readiness_event this = None"
    and "PJRT_Buffer_ReadyEvent (c_api (buffer_client this)) (c_buffer this) = Inr ev"
  shows "\<exists>this' w.
     run_ready_ops ev ops this empty_world =
       Inr (replicate (count_list ops CallGetReadyFuture) 0, this', w) \<and>
     (CallGetReadyFuture \<in> set ops \<longrightarrow>
        readiness_promise this' = Some 0 \<and>
        length (promises w) = 1 \<and>
        calls w = [Call_Buffer_ReadyEvent (c_buffer this), Call_Event_OnReady ev (SetsPromise 0)] \<and>
        future_status 0 w =
          (case PJRT_Event_OnReady (c_api (buffer_client this)) ev of
             Some e \<Rightarrow> Some (Some e)
           | None \<Rightarrow> completion_of ops) \<and>
        promise_sets w = (case future_status 0 w of None \<Rightarrow> [] | Some st \<Rightarrow> [(0, st)]))"
proof -
  have "[] = ([] :: (PJRT_Event \<times> Status option) list) \<or>
        (\<exists>e. ([] :: (PJRT_Event \<times> Status option) list) = [(ev, e)])"
    by simp
  from unrequested_run [OF assms this, of ops] obtain this' w where
    r: "run_ready_ops ev ops this empty_world =
          Inr (replicate (count_list ops CallGetReadyFuture) 0, this', w)"
    and c: "CallGetReadyFuture \<in> set ops \<longrightarrow>
        readiness_promise this' = Some 0 \<and>
        promises w =
          [case PJRT_Event_OnReady (c_api (buffer_client this)) ev of
             Some e \<Rightarrow> Some (Some e)
           | None \<Rightarrow> (case ([] :: (PJRT_Event \<times> Status option) list) of
                       [] \<Rightarrow> completion_of ops | (_, e0) # _ \<Rightarrow> Some e0)] \<and>
        calls w = [Call_Buffer_ReadyEvent (c_buffer this), Call_Event_OnReady ev (SetsPromise 0)] \<and>
        promise_sets w = (case hd (promises w) of None \<Rightarrow> [] | Some st \<Rightarrow> [(0, st)])"
    unfolding empty_world_def by blast
  from c have "CallGetReadyFuture \<in> set ops \<longrightarrow>
        readiness_promise this' = Some 0 \<and>
        length (promises w) = 1 \<and>
        calls w = [Call_Buffer_ReadyEvent (c_buffer this), Call_Event_OnReady ev (SetsPromise 0)] \<and>
        future_status 0 w =
          (case PJRT_Event_OnReady (c_api (buffer_client this)) ev of
             Some e \<Rightarrow> Some (Some e)
           | None \<Rightarrow> completion_of ops) \<and>
        promise_sets w = (case future_status 0 w of None \<Rightarrow> [] | Some st \<Rightarrow> [(0, st)])"
    by (simp add: future_status_def cong: option.case_cong)
  with r show ?thesis
    by blast
qed

theorem GetReadyFuture_single_promise_witness:
  "readiness_promise (new_PjRtCApiBuffer (demo_client 1 40 ''tpu'') 7) = None \<and>
   readiness_event (new_PjRtCApiBuffer (demo_client 1 40 ''tpu'') 7) = None \<and>
   PJRT_Buffer_ReadyEvent (c_api (buffer_client (new_PjRtCApiBuffer (demo_client 1 40 ''tpu'') 7)))
     (c_buffer (new_PjRtCApiBuffer (demo_client 1 40 ''tpu'') 7)) = Inr 607 \<and>
   (\<exists>this' w.
      run_ready_ops 607
        [CallGetReadyFuture, PluginCompletes None, CallGetReadyFuture,
         PluginCompletes (Some (Status kInternal ''late'')), CallGetReadyFuture]
        (new_PjRtCApiBuffer (demo_client 1 40 ''tpu'') 7) empty_world = Inr ([0, 0, 0], this', w) \<and>
      future_status 0 w = Some None \<and>
      promise_sets w = [(0, None)] \<and>
      calls w = [Call_Buffer_ReadyEvent 7, Call_Event_OnReady 607 (SetsPromise 0)])"
proof -
  let ?b = "new_PjRtCApiBuffer (demo_client 1 40 ''tpu'') 7"
  let ?ops = "[CallGetReadyFuture, PluginCompletes None, CallGetReadyFuture,
         PluginCompletes (Some (Status kInternal ''late'')), CallGetReadyFuture]"
  have h1: "readiness_promise ?b = None" and h2: "readiness_event ?b = None"
    and h3: "PJRT_Buffer_ReadyEvent (c_api (buffer_client ?b)) (c_buffer ?b) = Inr 607"
    by (simp_all add: new_PjRtCApiBuffer_def demo_client_def demo_api_def)
  have reg: "PJRT_Event_OnReady (c_api (buffer_client ?b)) 607 = None"
    by (simp add: new_PjRtCApiBuffer_def demo_client_def demo_api_def)
  from GetReadyFuture_single_promise [OF h1 h2 h3, of ?ops] obtain this' w where
    "run_ready_ops 607 ?ops ?b empty_world =
       Inr (replicate (count_list ?ops CallGetReadyFuture) 0, this', w)"
    "CallGetReadyFuture \<in> set ?ops \<longrightarrow>
        readiness_promise this' = Some 0 \<and>
        length (promises w) = 1 \<and>
        calls w = [Call_Buffer_ReadyEvent (c_buffer ?b), Call_Event_OnReady 607 (SetsPromise 0)] \<and>
        future_status 0 w =
          (case PJRT_Event_OnReady (c_api (buffer_client ?b)) 607 of
             Some e \<Rightarrow> Some (Some e)
           | None \<Rightarrow> completion_of ?ops) \<and>
        promise_sets w = (case future_status 0 w of None \<Rightarrow> [] | Some st \<Rightarrow> [(0, st)])"
    by blast
  with reg have "run_ready_ops 607 ?ops ?b empty_world = Inr ([0, 0, 0], this', w) \<and>
      future_status 0 w = Some None \<and>
      promise_sets w = [(0, None)] \<and>
      calls w = [Call_Buffer_ReadyEvent 7, Call_Event_OnReady 607 (SetsPromise 0)]"
    by (simp add: new_PjRtCApiBuffer_def numeral_3_eq_3)
  with h1 h2 h3 show ?thesis
    by blast
qed

section \<open>Properties of the initialization\<close>

subsection \<open>What the passes preserve\<close>








lemma AttachMemorySpacesToDevices_first_unimplemented:
  assumes "PJRT_Device_AddressableMemories (c_api this) (c_device (owned_devices g ! d)) = Inl e"
    and "code e = kUnimplemented"
  shows "AttachMemorySpacesToDevices this (d # post) g =
           Inr (g\<lparr>init_calls := init_calls g @
                    [Call_Device_AddressableMemories (c_device (owned_devices g ! d))]\<rparr>)"
  using assms by (simp add: Let_def)










subsection \<open>Plugins without memory spaces\<close>



end
